theory Spec2Isabelle
  imports Complex_Main "HOL-Library.AList" "HOL-Library.Monad_Syntax"
begin

section \<open>JavaScript values\<close>

subsection \<open>Strings\<close>

text \<open>
  A JavaScript string is a sequence of UTF-16 code units; \<open>s.substring (0, n)\<close> is
  \<open>take n s\<close>. The ASCII literals of the source are written with \<open>ascii\<close>, the Hebrew
  ones as their code units.
\<close>

type_synonym jsstring = "nat list"

definition ascii :: "string \<Rightarrow> jsstring" where
  "ascii s = map of_char s"

text \<open>\<open>s.includes (sub)\<close>\<close>

fun string_includes :: "jsstring \<Rightarrow> jsstring \<Rightarrow> bool" where
  "string_includes [] sub = (sub = [])"
| "string_includes (c # cs) sub =
     (take (length sub) (c # cs) = sub \<or> string_includes cs sub)"

text \<open>\<open>xs.join (sep)\<close> on an array of strings\<close>

fun join :: "jsstring \<Rightarrow> jsstring list \<Rightarrow> jsstring" where
  "join sep [] = []"
| "join sep [x] = x"
| "join sep (x # y # ys) = x @ sep @ join sep (y # ys)"

text \<open>
  The white-space class of a regular expression: the white space and line terminator
  code points of ECMAScript.
\<close>

definition is_space :: "nat \<Rightarrow> bool" where
  "is_space c \<longleftrightarrow>
     c \<in> {9, 10, 11, 12, 13, 32, 160, 5760, 8232, 8233, 8239, 8287, 12288, 65279} \<or>
     (8192 \<le> c \<and> c \<le> 8202)"

text \<open>Replacing globally one or more white-space characters by an underscore: every maximal
  run of white space becomes one underscore.\<close>

function replace_spaces :: "jsstring \<Rightarrow> jsstring" where
  "replace_spaces [] = []"
| "replace_spaces (c # cs) =
     (if is_space c then 95 # replace_spaces (dropWhile is_space cs)
      else c # replace_spaces cs)"
  by pat_completeness auto
termination
  by (relation "measure length") (auto simp: length_dropWhile_le le_imp_less_Suc)

text \<open>\<open>updateText || ''\<close> for an optional string\<close>

definition or_empty :: "jsstring option \<Rightarrow> jsstring" where
  "or_empty t = (case t of None \<Rightarrow> [] | Some x \<Rightarrow> x)"

text \<open>The truth value of an optional string: neither \<open>undefined\<close> nor empty.\<close>

definition nonempty :: "jsstring option \<Rightarrow> bool" where
  "nonempty t = (case t of None \<Rightarrow> False | Some x \<Rightarrow> x \<noteq> [])"

subsection \<open>Numbers\<close>

text \<open>
  A JavaScript number is \<open>NaN\<close>, an infinity or a finite value, here a real. The two
  zeros are one value: both are false as conditions, and no function below tells them
  apart. The rounding of an exact result to a double is the parameter \<open>fl\<close> of the
  environment (below).
\<close>

datatype jsnum = NaN | NegInf | Fin real | PosInf

text \<open>The truth value of a number: \<open>NaN\<close> and zero are false.\<close>

definition truthy_num :: "jsnum \<Rightarrow> bool" where
  "truthy_num n \<longleftrightarrow> n \<noteq> NaN \<and> n \<noteq> Fin 0"

fun Math_max :: "jsnum \<Rightarrow> jsnum \<Rightarrow> jsnum" where
  "Math_max NaN y = NaN"
| "Math_max x NaN = NaN"
| "Math_max PosInf y = PosInf"
| "Math_max x PosInf = PosInf"
| "Math_max NegInf y = y"
| "Math_max x NegInf = x"
| "Math_max (Fin a) (Fin b) = Fin (max a b)"

fun Math_min :: "jsnum \<Rightarrow> jsnum \<Rightarrow> jsnum" where
  "Math_min NaN y = NaN"
| "Math_min x NaN = NaN"
| "Math_min NegInf y = NegInf"
| "Math_min x NegInf = NegInf"
| "Math_min PosInf y = y"
| "Math_min x PosInf = x"
| "Math_min (Fin a) (Fin b) = Fin (min a b)"

text \<open>\<open>Math.round\<close> of a finite number: the nearest integer, a tie going up.\<close>

definition Math_round :: "real \<Rightarrow> jsnum" where
  "Math_round x = Fin (of_int \<lfloor>x + 1 / 2\<rfloor>)"

subsection \<open>Parsed JSON\<close>

text \<open>
  The values a JSON parser produces. \<open>JNull\<close> stands for \<open>null\<close> and for \<open>undefined\<close>
  as a whole value: reading a property of either throws. An object is the list of its own
  properties; a property that is absent reads as \<open>undefined\<close>, here \<open>None\<close>.
\<close>

datatype json =
    JNull
  | JBool bool
  | JNum jsnum
  | JStr jsstring
  | JArr "json list"
  | JObj "(jsstring \<times> json) list"

fun read_property :: "json \<Rightarrow> jsstring \<Rightarrow> json option" where
  "read_property (JObj kvs) k = map_of kvs k"
| "read_property v k = None"

fun truthy :: "json option \<Rightarrow> bool" where
  "truthy None = False"
| "truthy (Some JNull) = False"
| "truthy (Some (JBool b)) = b"
| "truthy (Some (JNum n)) = truthy_num n"
| "truthy (Some (JStr s)) = (s \<noteq> [])"
| "truthy (Some (JArr xs)) = True"
| "truthy (Some (JObj kvs)) = True"

text \<open>\<open>parsed.k || d\<close>\<close>

definition value_or :: "json \<Rightarrow> jsstring \<Rightarrow> json \<Rightarrow> json" where
  "value_or parsed k d =
     (case read_property parsed k of None \<Rightarrow> d | Some v \<Rightarrow> if truthy (Some v) then v else d)"

text \<open>\<open>parsed.k || undefined\<close>\<close>

definition value_or_undefined :: "json \<Rightarrow> jsstring \<Rightarrow> json option" where
  "value_or_undefined parsed k =
     (case read_property parsed k of None \<Rightarrow> None | Some v \<Rightarrow> if truthy (Some v) then Some v else None)"

section \<open>The environment\<close>

text \<open>
  What the two source files use and do not define.
  \<^item> \<open>openai_configured\<close>: whether the module constant \<open>openai\<close> is a client, that is
    whether \<open>OPENAI_API_KEY\<close> is set.
  \<^item> \<open>extract_and_parse\<close>: \<open>parsePartialJSON (extractCleanJSON (content))\<close>; both are
    imported from \<open>../utils/openai\<close>. \<open>None\<close> when either throws.
  \<^item> \<open>StringToNumber\<close>: the conversion \<open>Number (s)\<close> of the language for a string.
  \<^item> \<open>ObjectToNumber\<close>: \<open>Number (v)\<close> for an array or an object, which goes through
    \<open>valueOf\<close> and \<open>toString\<close>; \<open>None\<close> when it throws a \<open>TypeError\<close>.
  \<^item> \<open>NumberToString\<close>: a number inside a template literal.
  \<^item> \<open>fl\<close>: the rounding of an exact arithmetic result to a double.
\<close>

record env =
  openai_configured :: bool
  extract_and_parse :: "jsstring \<Rightarrow> json option"
  StringToNumber :: "jsstring \<Rightarrow> jsnum"
  ObjectToNumber :: "json \<Rightarrow> jsnum option"
  NumberToString :: "jsnum \<Rightarrow> jsstring"
  fl :: "real \<Rightarrow> real"

text \<open>
  What is known of \<open>fl\<close>: it is monotone, and an integer of magnitude up to \<open>2 ^ 53\<close> is a
  double.
\<close>

definition rounding :: "(real \<Rightarrow> real) \<Rightarrow> bool" where
  "rounding f \<longleftrightarrow>
     (\<forall>x y. x \<le> y \<longrightarrow> f x \<le> f y) \<and>
     (\<forall>k::int. \<bar>k\<bar> \<le> 2 ^ 53 \<longrightarrow> f (of_int k) = of_int k)"

definition is_digit :: "nat \<Rightarrow> bool" where
  "is_digit c \<longleftrightarrow> 48 \<le> c \<and> c \<le> 57"

definition decimal_value :: "jsstring \<Rightarrow> nat" where
  "decimal_value ds = foldl (\<lambda>a c. 10 * a + (c - 48)) 0 ds"

text \<open>
  \<open>Number (v)\<close>, where \<open>v\<close> is the value read from a property. \<open>None\<close> is a thrown
  \<open>TypeError\<close>. A string of one to fifteen decimal digits denotes an integer that is a
  double; every other string is left to \<open>StringToNumber\<close>.
\<close>

fun ToNumber :: "env \<Rightarrow> json option \<Rightarrow> jsnum option" where
  "ToNumber E None = Some NaN"
| "ToNumber E (Some JNull) = Some (Fin 0)"
| "ToNumber E (Some (JBool b)) = Some (Fin (if b then 1 else 0))"
| "ToNumber E (Some (JNum n)) = Some n"
| "ToNumber E (Some (JStr s)) =
     Some (if s \<noteq> [] \<and> length s \<le> 15 \<and> list_all is_digit s
           then Fin (of_nat (decimal_value s)) else StringToNumber E s)"
| "ToNumber E (Some (JArr xs)) = ObjectToNumber E (JArr xs)"
| "ToNumber E (Some (JObj kvs)) = ObjectToNumber E (JObj kvs)"

text \<open>\<open>Number (parsed.k) || d\<close>\<close>

definition number_or :: "env \<Rightarrow> json \<Rightarrow> jsstring \<Rightarrow> jsnum \<Rightarrow> jsnum option" where
  "number_or E parsed k d =
     map_option (\<lambda>n. if truthy_num n then n else d) (ToNumber E (read_property parsed k))"

text \<open>\<open>Number (parsed.k) || undefined\<close>; the inner \<open>None\<close> is \<open>undefined\<close>.\<close>

definition number_or_undefined :: "env \<Rightarrow> json \<Rightarrow> jsstring \<Rightarrow> jsnum option option" where
  "number_or_undefined E parsed k =
     map_option (\<lambda>n. if truthy_num n then Some n else None) (ToNumber E (read_property parsed k))"

section \<open>Client: \<open>client/src/services/api.ts\<close>\<close>

subsection \<open>The retry wrapper\<close>

text \<open>\<open>API_CONFIG\<close>. Delays are in milliseconds.\<close>

definition retryAttempts :: nat where
  "retryAttempts = 3"

definition retryDelay :: int where
  "retryDelay = 1000"

definition maxRetryDelay :: int where
  "maxRetryDelay = 5000"

text \<open>
  What the wrapper and the response interceptor read of an error:
  \<open>error.response?.status\<close> (absent when there is no response) and \<open>error.name\<close>. The
  detail stands for the rest of the error object, so that two different errors are
  different values.
\<close>

record request_error =
  response_status :: "int option"
  error_name :: jsstring
  error_detail :: jsstring

text \<open>
  The result of one run of \<open>retryRequest\<close>: what the returned promise settles with, the
  number of times \<open>requestFn\<close> was invoked, and the delays slept between the attempts, in
  order.
\<close>

record 'a retry_run =
  outcome :: "request_error + 'a"
  attempts :: nat
  delays :: "int list"

text \<open>
  \<open>Math.min (retryDelay * Math.pow (2, attempt - 1), maxRetryDelay)\<close>. The only value of
  \<open>attempt\<close> below 1 that a natural number can take is 0, where the power is one half.
\<close>

definition backoff_delay :: "nat \<Rightarrow> int" where
  "backoff_delay attempt =
     (if attempt = 0 then min (retryDelay div 2) maxRetryDelay
      else min (retryDelay * 2 ^ (attempt - 1)) maxRetryDelay)"

text \<open>
  The errors the wrapper rethrows at once: status 401, 403 or 422, or the name
  \<open>AbortError\<close>.
\<close>

definition no_retry :: "request_error \<Rightarrow> bool" where
  "no_retry e \<longleftrightarrow>
     response_status e = Some 401 \<or> response_status e = Some 403 \<or>
     response_status e = Some 422 \<or> error_name e = ascii ''AbortError''"

definition later :: "int \<Rightarrow> ('a retry_run \<times> 's) \<Rightarrow> ('a retry_run \<times> 's)" where
  "later d r = (case r of (run, s) \<Rightarrow>
     (run\<lparr>attempts := Suc (attempts run), delays := d # delays run\<rparr>, s))"

text \<open>
  \<open>retryRequest (requestFn, attempt)\<close>. The call \<open>requestFn ()\<close> is an effect: it is a
  function of the attempt in which it is made and of a state \<open>'s\<close> that it may change (the
  token stores, for a backend call). Every call site of the source leaves \<open>attempt\<close> at its
  default, 1.
\<close>

function retryRequest ::
  "(nat \<Rightarrow> 's \<Rightarrow> (request_error + 'a) \<times> 's) \<Rightarrow> nat \<Rightarrow> 's \<Rightarrow> 'a retry_run \<times> 's" where
  "retryRequest requestFn attempt s =
     (case requestFn attempt s of
        (Inr v, s') \<Rightarrow> (\<lparr>outcome = Inr v, attempts = 1, delays = []\<rparr>, s')
      | (Inl e, s') \<Rightarrow>
          if attempt \<ge> retryAttempts then (\<lparr>outcome = Inl e, attempts = 1, delays = []\<rparr>, s')
          else if no_retry e then (\<lparr>outcome = Inl e, attempts = 1, delays = []\<rparr>, s')
          else later (backoff_delay attempt) (retryRequest requestFn (attempt + 1) s'))"
  by pat_completeness auto
termination
  by (relation "measure (\<lambda>(requestFn, attempt, s). retryAttempts - attempt)") auto

declare retryRequest.simps [simp del]

text \<open>The state in which the invocation number \<open>j\<close> (from 0) of a run is made.\<close>

fun state_before ::
  "(nat \<Rightarrow> 's \<Rightarrow> (request_error + 'a) \<times> 's) \<Rightarrow> nat \<Rightarrow> 's \<Rightarrow> nat \<Rightarrow> 's" where
  "state_before requestFn a s 0 = s"
| "state_before requestFn a s (Suc j) =
     state_before requestFn (Suc a) (snd (requestFn a s)) j"

subsection \<open>The token stores and the interceptors\<close>

datatype platform = Web | Native

text \<open>
  The three places a token is kept (\<open>localStorage\<close> under \<open>auth_token\<close>, \<open>SecureStore\<close>
  under \<open>auth_token_secure\<close>, \<open>AsyncStorage\<close> under \<open>auth_token\<close>) and the page location.
\<close>

record client_state =
  localStorage_auth_token :: "jsstring option"
  secureStore_auth_token_secure :: "jsstring option"
  asyncStorage_auth_token :: "jsstring option"
  location_href :: "jsstring option"

text \<open>
  The device: \<open>Platform.OS\<close>, whether \<open>window.location\<close> exists, and which store
  operations throw. A removal that throws removes nothing.
\<close>

record device =
  os :: platform
  has_window_location :: bool
  localStorage_removeItem_throws :: bool
  secureStore_deleteItemAsync_throws :: bool
  asyncStorage_removeItem_throws :: bool
  localStorage_getItem_throws :: bool
  secureStore_getItemAsync_throws :: bool
  asyncStorage_getItem_throws :: bool

text \<open>
  The request interceptor: the token of the \<open>Authorization\<close> header, if one is set. A
  failing \<open>SecureStore\<close> read falls back to \<open>AsyncStorage\<close>; if that fails too, or if
  the \<open>localStorage\<close> read fails, the outer handler returns the configuration without the
  header.
\<close>

definition request_token :: "device \<Rightarrow> client_state \<Rightarrow> jsstring option" where
  "request_token D s =
     (let token =
        (if os D = Web then
           (if localStorage_getItem_throws D then None else localStorage_auth_token s)
         else if \<not> secureStore_getItemAsync_throws D then secureStore_auth_token_secure s
         else if asyncStorage_getItem_throws D then None
         else asyncStorage_auth_token s)
      in if nonempty token then token else None)"

text \<open>The \<open>try\<close> block of the 401 branch: a removal that throws ends the block.\<close>

definition clear_auth_data :: "device \<Rightarrow> client_state \<Rightarrow> client_state" where
  "clear_auth_data D s =
     (if os D = Web then
        (if localStorage_removeItem_throws D then s
         else s\<lparr>localStorage_auth_token := None\<rparr>)
      else if secureStore_deleteItemAsync_throws D then s
      else if asyncStorage_removeItem_throws D
        then s\<lparr>secureStore_auth_token_secure := None\<rparr>
      else s\<lparr>secureStore_auth_token_secure := None, asyncStorage_auth_token := None\<rparr>)"

text \<open>\<open>window.location.href = "/signin"\<close>, where there is a \<open>window.location\<close>\<close>

definition redirect_to_signin :: "device \<Rightarrow> client_state \<Rightarrow> client_state" where
  "redirect_to_signin D s =
     (if has_window_location D then s\<lparr>location_href := Some (ascii ''/signin'')\<rparr> else s)"

text \<open>The rejection handler of the response interceptor; it rejects with the same error.\<close>

definition response_rejected ::
  "device \<Rightarrow> request_error \<Rightarrow> client_state \<Rightarrow> request_error \<times> client_state" where
  "response_rejected D e s =
     (if response_status e = Some 401 then (e, redirect_to_signin D (clear_auth_data D s))
      else (e, s))"

text \<open>
  One request through the \<open>api\<close> instance (\<open>api.get\<close>, \<open>api.post\<close>, ...), given what the
  transport delivers: a response passes, a failure goes through the rejection handler.
\<close>

definition api_request ::
  "device \<Rightarrow> (request_error + 'a) \<Rightarrow> client_state \<Rightarrow> (request_error + 'a) \<times> client_state" where
  "api_request D delivered s =
     (case delivered of
        Inr response \<Rightarrow> (Inr response, s)
      | Inl e \<Rightarrow> (case response_rejected D e s of (e', s') \<Rightarrow> (Inl e', s')))"

text \<open>
  A backend call as every API class makes it: \<open>retryRequest (() => api.post (...))\<close>, where
  \<open>transport k\<close> is what the transport delivers in attempt \<open>k\<close>.
\<close>

definition backend_call ::
  "device \<Rightarrow> (nat \<Rightarrow> request_error + 'a) \<Rightarrow> client_state \<Rightarrow> 'a retry_run \<times> client_state" where
  "backend_call D transport s = retryRequest (\<lambda>k. api_request D (transport k)) 1 s"

subsection \<open>\<open>NutritionAPI.analyzeMeal\<close>\<close>

text \<open>
  \<open>NutritionAPI.requestQueue\<close> maps a request key to a promise. A promise is named by its
  number: promise \<open>p\<close> is the one returned by invocation number \<open>p\<close> of \<open>retryRequest\<close>
  from \<open>analyzeMeal\<close>, so that \<open>underlying_requests\<close> counts those invocations.
\<close>

record nutrition_state =
  nutrition_requestQueue :: "jsstring \<rightharpoonup> nat"
  underlying_requests :: nat
  nutrition_awaited :: "nat \<rightharpoonup> jsstring"
  nutrition_timers :: "jsstring list"

text \<open>
  \<open>analyzeMeal\<close> up to its \<open>await\<close>: the part that runs without interruption. The
  arguments \<open>editedIngredients\<close>, \<open>language\<close> and \<open>options\<close> only go into the request.
\<close>

definition analyzeMeal_key :: "jsstring \<Rightarrow> jsstring option \<Rightarrow> jsstring" where
  "analyzeMeal_key imageBase64 updateText =
     ascii ''analyze_'' @ take 50 imageBase64 @ ascii ''_'' @ or_empty updateText"

text \<open>
  What a caller of \<open>analyzeMeal\<close> is answered with. The call that makes the request
  returns \<open>response.data\<close>, where \<open>response\<close> is what its promise is fulfilled with; a
  call that finds the key in the queue returns the queued promise itself, so the whole
  response. Either is rejected as the promise is.
\<close>

datatype nutrition_reply = ResponseData nat | QueuedPromise nat

definition analyzeMeal ::
  "jsstring \<Rightarrow> jsstring option \<Rightarrow> nutrition_state \<Rightarrow> nutrition_reply \<times> nutrition_state" where
  "analyzeMeal imageBase64 updateText s =
     (let requestKey = analyzeMeal_key imageBase64 updateText
      in case nutrition_requestQueue s requestKey of
           Some p \<Rightarrow> (QueuedPromise p, s)
         | None \<Rightarrow>
             (let p = underlying_requests s
              in (ResponseData p, s\<lparr>underlying_requests := Suc p,
                      nutrition_requestQueue := (nutrition_requestQueue s)(requestKey \<mapsto> p),
                      nutrition_awaited := (nutrition_awaited s)(p \<mapsto> requestKey)\<rparr>)))"

text \<open>
  The \<open>finally\<close> block, run when promise \<open>p\<close> has settled either way: it sets the timer
  that removes the key one second later.
\<close>

definition analyzeMeal_settled :: "nat \<Rightarrow> nutrition_state \<Rightarrow> nutrition_state" where
  "analyzeMeal_settled p s =
     (case nutrition_awaited s p of
        None \<Rightarrow> s
      | Some requestKey \<Rightarrow>
          s\<lparr>nutrition_awaited := (nutrition_awaited s)(p := None),
            nutrition_timers := nutrition_timers s @ [requestKey]\<rparr>)"

definition analyzeMeal_timer :: "jsstring \<Rightarrow> nutrition_state \<Rightarrow> nutrition_state" where
  "analyzeMeal_timer requestKey s =
     (if requestKey \<in> set (nutrition_timers s) then
        s\<lparr>nutrition_requestQueue := (nutrition_requestQueue s)(requestKey := None),
          nutrition_timers := remove1 requestKey (nutrition_timers s)\<rparr>
      else s)"

section \<open>Server: \<open>server/src/services/openai.ts\<close>\<close>

subsection \<open>The analysis result\<close>

text \<open>
  \<open>MealAnalysisResult\<close> as the two functions that build it fill it. A field filled with
  \<open>parsed.k || d\<close> holds whatever truthy value the response had there, so its type is
  \<open>json\<close>. The fields from \<open>saturated_fats_g\<close> on are set by the normalizer only; the
  fallback result has none of them.
\<close>

record additional_fields =
  saturated_fats_g :: "jsnum option"
  polyunsaturated_fats_g :: "jsnum option"
  monounsaturated_fats_g :: "jsnum option"
  omega_3_g :: "jsnum option"
  omega_6_g :: "jsnum option"
  soluble_fiber_g :: "jsnum option"
  insoluble_fiber_g :: "jsnum option"
  cholesterol_mg :: "jsnum option"
  alcohol_g :: "jsnum option"
  caffeine_mg :: "jsnum option"
  liquids_ml :: "jsnum option"
  serving_size_g :: "jsnum option"
  allergens_json :: json
  vitamins_json :: json
  micronutrients_json :: json
  glycemic_index :: "jsnum option"
  insulin_index :: "jsnum option"
  food_category :: json
  processing_level :: json
  cooking_method :: json
  additives_json :: json
  health_risk_notes :: "json option"

record MealAnalysisResult =
  name :: json
  calories :: jsnum
  protein :: jsnum
  carbs :: jsnum
  fat :: jsnum
  fiber :: jsnum
  sugar :: jsnum
  sodium :: jsnum
  confidence :: jsnum
  ingredients :: "json list"
  servingSize :: json
  cookingMethod :: json
  healthNotes :: json
  additional :: "additional_fields option"

subsection \<open>\<open>generateEnhancedFallbackAnalysis\<close>\<close>

text \<open>Arithmetic on doubles: the exact result, rounded.\<close>

definition fadd :: "env \<Rightarrow> real \<Rightarrow> real \<Rightarrow> real" where
  "fadd E a b = fl E (a + b)"

definition fsub :: "env \<Rightarrow> real \<Rightarrow> real \<Rightarrow> real" where
  "fsub E a b = fl E (a - b)"

definition fmul :: "env \<Rightarrow> real \<Rightarrow> real \<Rightarrow> real" where
  "fmul E a b = fl E (a * b)"

definition fdiv :: "env \<Rightarrow> real \<Rightarrow> real \<Rightarrow> real" where
  "fdiv E a b = fl E (a / b)"

text \<open>
  The random source is the sequence of values that the calls of \<open>Math.random\<close> return
  during one run of the generator: \<open>random i\<close> is the value of call number \<open>i\<close>, in the
  order of evaluation. Each lies in \<open>[0, 1)\<close>.
\<close>

definition generateEnhancedFallbackAnalysis ::
  "env \<Rightarrow> (nat \<Rightarrow> real) \<Rightarrow> jsstring \<Rightarrow> jsstring option \<Rightarrow> MealAnalysisResult" where
  "generateEnhancedFallbackAnalysis E random language updateText =
     (let isHebrew = (language = ascii ''hebrew'');
          baseCalories = fadd E 300 (of_int \<lfloor>fmul E (random 0) 400\<rfloor>);
          proteinRatio = fadd E (fl E 0.15) (fmul E (random 1) (fl E 0.15));
          carbRatio = fadd E (fl E 0.35) (fmul E (random 2) 0.25);
          fatRatio = fsub E (fsub E 1 proteinRatio) carbRatio
      in \<lparr>name = JStr
             (if nonempty updateText then
                (if isHebrew
                 then [1488, 1512, 1493, 1495, 1492, 32, 1502, 1506, 1493, 1491, 1499, 1504,
                       1514, 32, 45, 32] @ take 20 (or_empty updateText)
                 else ascii ''Updated meal - '' @ take 20 (or_empty updateText))
              else
                (if isHebrew
                 then [1488, 1512, 1493, 1495, 1492, 32, 1502, 1504, 1493, 1514, 1495, 1514]
                 else ascii ''Analyzed meal'')),
           calories = Fin baseCalories,
           protein = Math_round (fdiv E (fmul E baseCalories proteinRatio) 4),
           carbs = Math_round (fdiv E (fmul E baseCalories carbRatio) 4),
           fat = Math_round (fdiv E (fmul E baseCalories fatRatio) 9),
           fiber = Math_round (fadd E 3 (fmul E (random 3) 7)),
           sugar = Math_round (fadd E 5 (fmul E (random 4) 15)),
           sodium = Math_round (fadd E 200 (fmul E (random 5) 600)),
           confidence = Fin 65,
           ingredients =
             [JObj
               [(ascii ''name'', JStr
                   (if isHebrew
                    then [1502, 1512, 1499, 1497, 1489, 32, 1506, 1497, 1511, 1512, 1497]
                    else ascii ''Main ingredient'')),
                (ascii ''calories'', JNum (Math_round (fmul E baseCalories (fl E 0.6)))),
                (ascii ''protein'', JNum (Math_round
                   (fdiv E (fmul E (fmul E baseCalories proteinRatio) (fl E 0.6)) 4))),
                (ascii ''carbs'', JNum (Math_round
                   (fdiv E (fmul E (fmul E baseCalories carbRatio) (fl E 0.6)) 4))),
                (ascii ''fat'', JNum (Math_round
                   (fdiv E (fmul E (fmul E baseCalories fatRatio) (fl E 0.6)) 9))),
                (ascii ''fiber'', JNum (Math_round (fadd E 2 (fmul E (random 6) 4)))),
                (ascii ''sugar'', JNum (Math_round (fadd E 3 (fmul E (random 7) 8)))),
                (ascii ''sodium_mg'', JNum (Math_round (fadd E 100 (fmul E (random 8) 300))))]],
           servingSize = JStr
             (if isHebrew then [1502, 1504, 1492, 32, 1489, 1497, 1504, 1493, 1504, 1497, 1514]
              else ascii ''Medium serving''),
           cookingMethod = JStr
             (if isHebrew then [1489, 1497, 1513, 1493, 1500, 32, 1512, 1490, 1497, 1500]
              else ascii ''Regular cooking''),
           healthNotes = JStr
             (if isHebrew
              then [1504, 1497, 1514, 1493, 1495, 32, 1494, 1492, 32, 1502, 1489, 1493, 1505,
                    1505, 32, 1506, 1500, 32, 1492, 1506, 1512, 1499, 1492, 32, 1499, 1500,
                    1500, 1497, 1514, 46, 32, 1500, 1491, 1497, 1493, 1511, 32, 1502, 1497,
                    1512, 1489, 1497, 44, 32, 1488, 1504, 1488, 32, 1505, 1508, 1511, 32,
                    1508, 1512, 1496, 1497, 1501, 32, 1504, 1493, 1505, 1508, 1497, 1501, 46]
              else ascii (''This analysis is based on general estimation. '' @
                          ''For maximum accuracy, please provide additional details.'')),
           additional = None\<rparr>)"

subsection \<open>\<open>parseAnalysisResponse\<close>\<close>

text \<open>
  The body of the \<open>try\<close> block, from the parsed value on. \<open>None\<close> is a throw: reading a
  property of \<open>null\<close>, or a \<open>Number (...)\<close> that throws.
\<close>

definition parseAnalysisResponse_try :: "env \<Rightarrow> jsstring \<Rightarrow> json \<Rightarrow> MealAnalysisResult option" where
  "parseAnalysisResponse_try E language parsed =
     (if parsed = JNull then None
      else do {
        calories' \<leftarrow> number_or E parsed (ascii ''calories'') (Fin 0);
        protein' \<leftarrow> number_or E parsed (ascii ''protein'') (Fin 0);
        carbs' \<leftarrow> number_or E parsed (ascii ''carbs'') (Fin 0);
        fat' \<leftarrow> number_or E parsed (ascii ''fat'') (Fin 0);
        fiber' \<leftarrow> number_or E parsed (ascii ''fiber'') (Fin 0);
        sugar' \<leftarrow> number_or E parsed (ascii ''sugar'') (Fin 0);
        sodium' \<leftarrow> number_or E parsed (ascii ''sodium'') (Fin 0);
        confidence' \<leftarrow> number_or E parsed (ascii ''confidence'') (Fin 75);
        saturated \<leftarrow> number_or_undefined E parsed (ascii ''saturated_fats_g'');
        polyunsaturated \<leftarrow> number_or_undefined E parsed (ascii ''polyunsaturated_fats_g'');
        monounsaturated \<leftarrow> number_or_undefined E parsed (ascii ''monounsaturated_fats_g'');
        omega_3 \<leftarrow> number_or_undefined E parsed (ascii ''omega_3_g'');
        omega_6 \<leftarrow> number_or_undefined E parsed (ascii ''omega_6_g'');
        soluble \<leftarrow> number_or_undefined E parsed (ascii ''soluble_fiber_g'');
        insoluble \<leftarrow> number_or_undefined E parsed (ascii ''insoluble_fiber_g'');
        cholesterol \<leftarrow> number_or_undefined E parsed (ascii ''cholesterol_mg'');
        alcohol \<leftarrow> number_or_undefined E parsed (ascii ''alcohol_g'');
        caffeine \<leftarrow> number_or_undefined E parsed (ascii ''caffeine_mg'');
        liquids \<leftarrow> number_or_undefined E parsed (ascii ''liquids_ml'');
        serving_size \<leftarrow> number_or_undefined E parsed (ascii ''serving_size_g'');
        glycemic \<leftarrow> number_or_undefined E parsed (ascii ''glycemic_index'');
        insulin \<leftarrow> number_or_undefined E parsed (ascii ''insulin_index'');
        Some
          \<lparr>name = value_or parsed (ascii ''name'')
             (JStr (if language = ascii ''hebrew'' then [1488, 1512, 1493, 1495, 1492]
                    else ascii ''Meal'')),
           calories = calories',
           protein = protein',
           carbs = carbs',
           fat = fat',
           fiber = fiber',
           sugar = sugar',
           sodium = sodium',
           confidence = Math_min (Fin 100) (Math_max (Fin 1) confidence'),
           ingredients =
             (case read_property parsed (ascii ''ingredients'') of
                Some (JArr xs) \<Rightarrow> xs | _ \<Rightarrow> []),
           servingSize = value_or parsed (ascii ''servingSize'')
             (JStr (if language = ascii ''hebrew'' then [1502, 1504, 1492, 32, 1488, 1495, 1514]
                    else ascii ''1 serving'')),
           cookingMethod = value_or parsed (ascii ''cookingMethod'')
             (JStr (if language = ascii ''hebrew'' then [1500, 1488, 32, 1497, 1491, 1493, 1506]
                    else ascii ''Unknown'')),
           healthNotes = value_or parsed (ascii ''healthNotes'') (JStr []),
           additional = Some
             \<lparr>saturated_fats_g = saturated,
              polyunsaturated_fats_g = polyunsaturated,
              monounsaturated_fats_g = monounsaturated,
              omega_3_g = omega_3,
              omega_6_g = omega_6,
              soluble_fiber_g = soluble,
              insoluble_fiber_g = insoluble,
              cholesterol_mg = cholesterol,
              alcohol_g = alcohol,
              caffeine_mg = caffeine,
              liquids_ml = liquids,
              serving_size_g = serving_size,
              allergens_json = value_or parsed (ascii ''allergens_json'') (JObj []),
              vitamins_json = value_or parsed (ascii ''vitamins_json'') (JObj []),
              micronutrients_json = value_or parsed (ascii ''micronutrients_json'') (JObj []),
              glycemic_index = glycemic,
              insulin_index = insulin,
              food_category = value_or parsed (ascii ''food_category'') (JStr []),
              processing_level = value_or parsed (ascii ''processing_level'') (JStr []),
              cooking_method = value_or parsed (ascii ''cooking_method'') (JStr []),
              additives_json = value_or parsed (ascii ''additives_json'') (JObj []),
              health_risk_notes = value_or_undefined parsed (ascii ''health_risk_notes'')\<rparr>\<rparr>
      })"

text \<open>
  \<open>parseAnalysisResponse (content, language)\<close>: whatever the \<open>try\<close> block throws, the
  handler returns the fallback analysis, without an update text.
\<close>

definition parseAnalysisResponse ::
  "env \<Rightarrow> (nat \<Rightarrow> real) \<Rightarrow> jsstring \<Rightarrow> jsstring \<Rightarrow> MealAnalysisResult" where
  "parseAnalysisResponse E random content language =
     (case Option.bind (extract_and_parse E content) (parseAnalysisResponse_try E language) of
        Some result \<Rightarrow> result
      | None \<Rightarrow> generateEnhancedFallbackAnalysis E random language None)"

subsection \<open>\<open>_performMealAnalysis\<close>\<close>

text \<open>
  What the handler of \<open>_performMealAnalysis\<close> reads of a caught error: \<open>error.code\<close> and
  \<open>error.message\<close>, either of which may be absent.
\<close>

record openai_error =
  error_code :: "jsstring option"
  error_message :: "jsstring option"

text \<open>
  How the call \<open>openai.chat.completions.create\<close> ends: it throws (as does anything
  before it in the \<open>try\<close> block), or a response arrives, of which the code reads
  \<open>response.choices[0]?.message?.content\<close>.
\<close>

datatype completion = Threw openai_error | Content "jsstring option"

text \<open>The \<open>catch\<close> block: \<open>Inl\<close> is the message of the \<open>Error\<close> it throws.\<close>

definition analysis_failed ::
  "env \<Rightarrow> (nat \<Rightarrow> real) \<Rightarrow> jsstring \<Rightarrow> jsstring option \<Rightarrow> openai_error
     \<Rightarrow> jsstring + MealAnalysisResult" where
  "analysis_failed E random language updateText e =
     (if error_code e = Some (ascii ''rate_limit_exceeded'')
        then Inl (ascii ''AI service is busy. Please try again in a moment.'')
      else if error_code e = Some (ascii ''insufficient_quota'')
        then Inl (ascii ''AI analysis quota exceeded. Please try again later.'')
      else if (case error_message e of None \<Rightarrow> False
               | Some m \<Rightarrow> string_includes m (ascii ''timeout''))
        then Inl (ascii ''Analysis is taking too long. Please try again.'')
      else Inr (generateEnhancedFallbackAnalysis E random language updateText))"

text \<open>
  \<open>_performMealAnalysis\<close>. The image and the edited ingredients only go into the request
  whose end is \<open>completion\<close>.
\<close>

definition performMealAnalysis ::
  "env \<Rightarrow> (nat \<Rightarrow> real) \<Rightarrow> jsstring \<Rightarrow> jsstring option \<Rightarrow> completion
     \<Rightarrow> jsstring + MealAnalysisResult" where
  "performMealAnalysis E random language updateText completion =
     (if \<not> openai_configured E
        then Inr (generateEnhancedFallbackAnalysis E random language updateText)
      else case completion of
        Threw e \<Rightarrow> analysis_failed E random language updateText e
      | Content content \<Rightarrow>
          if \<not> nonempty content then
            analysis_failed E random language updateText
              \<lparr>error_code = None,
               error_message = Some (ascii ''No content in OpenAI response'')\<rparr>
          else Inr (parseAnalysisResponse E random (or_empty content) language))"

subsection \<open>The response cache\<close>

text \<open>
  What \<open>requestCache\<close> holds under \<open>data\<close>: an analysis (stored by \<open>analyzeMealImage\<close> and
  \<open>updateMealAnalysis\<close>), a text (\<open>generateText\<close>) or a parsed meal plan
  (\<open>generateMealPlan\<close>).
\<close>

datatype cache_data = AnalysisData MealAnalysisResult | TextData jsstring | PlanData json

text \<open>The truth value of what a caller reads back, as in \<open>if (cached)\<close>.\<close>

fun truthy_data :: "cache_data \<Rightarrow> bool" where
  "truthy_data (AnalysisData r) = True"
| "truthy_data (TextData t) = (t \<noteq> [])"
| "truthy_data (PlanData j) = truthy (Some j)"

text \<open>
  A \<open>Map\<close> iterates its keys in the order of their first insertion, and \<open>set\<close> on a key
  that is present keeps the key's place. So the cache is the list of its entries in that
  order, each \<open>(key, data, timestamp)\<close>: \<open>set\<close> is \<open>AList.update\<close>, \<open>delete\<close> is
  \<open>AList.delete\<close>, \<open>size\<close> is the length, and \<open>keys ().next ().value\<close> is the key of the
  head. Times are in milliseconds.
\<close>

type_synonym cache = "(jsstring \<times> cache_data \<times> int) list"

definition CACHE_DURATION :: int where
  "CACHE_DURATION = 10 * 60 * 1000"

definition MAX_CACHE_SIZE :: nat where
  "MAX_CACHE_SIZE = 100"

definition createRequestKey :: "jsstring \<Rightarrow> jsstring \<Rightarrow> jsstring" where
  "createRequestKey prompt type = type @ ascii ''_'' @ replace_spaces (take 100 prompt)"

text \<open>\<open>getCachedResponse (key)\<close> at the time \<open>now\<close>; \<open>None\<close> is \<open>null\<close>.\<close>

definition getCachedResponse :: "jsstring \<Rightarrow> int \<Rightarrow> cache \<Rightarrow> cache_data option" where
  "getCachedResponse key now requestCache =
     (case map_of requestCache key of
        None \<Rightarrow> None
      | Some (data, timestamp) \<Rightarrow>
          if now - timestamp < CACHE_DURATION then Some data else None)"

text \<open>\<open>setCachedResponse (key, data)\<close> at the time \<open>now\<close>\<close>

definition setCachedResponse :: "jsstring \<Rightarrow> cache_data \<Rightarrow> int \<Rightarrow> cache \<Rightarrow> cache" where
  "setCachedResponse key data now requestCache =
     AList.update key (data, now)
       (if length requestCache \<ge> MAX_CACHE_SIZE then
          (case requestCache of
             [] \<Rightarrow> requestCache
           | (oldestKey, entry) # rest \<Rightarrow> AList.delete oldestKey requestCache)
        else requestCache)"

text \<open>The value a caller uses after \<open>const cached = getCachedResponse (key); if (cached)\<close>.\<close>

definition cache_hit :: "jsstring \<Rightarrow> int \<Rightarrow> cache \<Rightarrow> cache_data option" where
  "cache_hit key now requestCache =
     (case getCachedResponse key now requestCache of
        None \<Rightarrow> None
      | Some cached \<Rightarrow> if truthy_data cached then Some cached else None)"

subsection \<open>The state of the service\<close>

text \<open>
  The module holds \<open>requestCache\<close> and \<open>requestQueue\<close>. A promise is named by its number:
  promise \<open>p\<close> is the one returned by invocation number \<open>p\<close> of \<open>_performMealAnalysis\<close>, so
  that \<open>analyses_started\<close> counts those invocations. \<open>awaited\<close> holds, for each promise not
  yet settled, what the call suspended at \<open>await requestPromise\<close> has captured; \<open>timers\<close>
  holds the keys of the pending \<open>setTimeout\<close> callbacks.
\<close>

record pending_analysis =
  pending_key :: jsstring
  pending_language :: jsstring
  pending_updateText :: "jsstring option"

record server_state =
  requestCache :: cache
  requestQueue :: "jsstring \<rightharpoonup> nat"
  analyses_started :: nat
  awaited :: "nat \<rightharpoonup> pending_analysis"
  timers :: "jsstring list"

definition initial_state :: server_state where
  "initial_state =
     \<lparr>requestCache = [], requestQueue = Map.empty, analyses_started = 0,
      awaited = Map.empty, timers = []\<rparr>"

subsection \<open>\<open>analyzeMealImage\<close>\<close>

text \<open>What a caller of \<open>analyzeMealImage\<close> is answered with: a cached value, or the result
  of a promise.\<close>

datatype reply = Cached cache_data | Awaits nat

definition analysis_key :: "jsstring \<Rightarrow> jsstring \<Rightarrow> jsstring option \<Rightarrow> jsstring" where
  "analysis_key imageBase64 language updateText =
     createRequestKey
       (take 50 imageBase64 @ ascii ''_'' @ or_empty updateText @ ascii ''_'' @ language)
       (ascii ''analyze'')"

text \<open>
  \<open>analyzeMealImage\<close> up to its \<open>await\<close>: the part that runs without interruption, at the
  time \<open>now\<close>. The call of \<open>_performMealAnalysis\<close> is the step that increments
  \<open>analyses_started\<close>.
\<close>

definition analyzeMealImage ::
  "jsstring \<Rightarrow> jsstring \<Rightarrow> jsstring option \<Rightarrow> int \<Rightarrow> server_state \<Rightarrow> reply \<times> server_state" where
  "analyzeMealImage imageBase64 language updateText now s =
     (let requestKey = analysis_key imageBase64 language updateText
      in case cache_hit requestKey now (requestCache s) of
           Some cached \<Rightarrow> (Cached cached, s)
         | None \<Rightarrow>
             (case requestQueue s requestKey of
                Some p \<Rightarrow> (Awaits p, s)
              | None \<Rightarrow>
                  (let p = analyses_started s
                   in (Awaits p,
                       s\<lparr>analyses_started := Suc p,
                         requestQueue := (requestQueue s)(requestKey \<mapsto> p),
                         awaited := (awaited s)(p \<mapsto>
                           \<lparr>pending_key = requestKey, pending_language = language,
                            pending_updateText = updateText\<rparr>)\<rparr>))))"

text \<open>
  The rest of \<open>analyzeMealImage\<close>, run at the time \<open>now\<close> when promise \<open>p\<close> settles: the
  result of \<open>_performMealAnalysis\<close> is cached if it is not an error, and the \<open>finally\<close>
  block sets the timer. The result is what every caller answered with \<open>Awaits p\<close>
  receives. \<open>None\<close>: no call is suspended on \<open>p\<close>.
\<close>

definition analyzeMealImage_settled ::
  "env \<Rightarrow> nat \<Rightarrow> completion \<Rightarrow> (nat \<Rightarrow> real) \<Rightarrow> int \<Rightarrow> server_state
     \<Rightarrow> ((jsstring + MealAnalysisResult) \<times> server_state) option" where
  "analyzeMealImage_settled E p completion random now s =
     (case awaited s p of
        None \<Rightarrow> None
      | Some call \<Rightarrow>
          (let result = performMealAnalysis E random (pending_language call)
                          (pending_updateText call) completion;
               s1 = (case result of
                       Inl err \<Rightarrow> s
                     | Inr r \<Rightarrow>
                         s\<lparr>requestCache :=
                             setCachedResponse (pending_key call) (AnalysisData r) now
                               (requestCache s)\<rparr>)
           in Some (result,
                    s1\<lparr>awaited := (awaited s)(p := None),
                       timers := timers s @ [pending_key call]\<rparr>)))"

text \<open>A timer set by \<open>analyzeMealImage\<close> fires: \<open>requestQueue.delete (requestKey)\<close>.\<close>

definition analyzeMealImage_timer :: "jsstring \<Rightarrow> server_state \<Rightarrow> server_state option" where
  "analyzeMealImage_timer requestKey s =
     (if requestKey \<in> set (timers s) then
        Some (s\<lparr>requestQueue := (requestQueue s)(requestKey := None),
                timers := remove1 requestKey (timers s)\<rparr>)
      else None)"

subsection \<open>The other operations on the cache\<close>

text \<open>
  \<open>updateMealAnalysis\<close>, \<open>generateText\<close> and \<open>generateMealPlan\<close> each run in two parts,
  before and after \<open>await openai.chat.completions.create (...)\<close>. The first part returns
  \<open>Some\<close> value when the operation ends there, and \<open>None\<close> when it goes on to the request;
  it changes nothing. The second part is given how the request ended. Arguments that
  only go into the prompt (\<open>originalAnalysis\<close>, \<open>maxTokens\<close>, \<open>temperature\<close>, the other
  fields of the meal plan request) are left out.
\<close>

definition update_key :: "jsstring \<Rightarrow> jsstring \<Rightarrow> jsstring" where
  "update_key updateText language =
     createRequestKey (ascii ''update_'' @ updateText @ ascii ''_'' @ language) (ascii ''update'')"

definition updateMealAnalysis_begin ::
  "env \<Rightarrow> (nat \<Rightarrow> real) \<Rightarrow> jsstring \<Rightarrow> jsstring \<Rightarrow> int \<Rightarrow> server_state \<Rightarrow> cache_data option" where
  "updateMealAnalysis_begin E random updateText language now s =
     (case cache_hit (update_key updateText language) now (requestCache s) of
        Some cached \<Rightarrow> Some cached
      | None \<Rightarrow>
          if \<not> openai_configured E
            then Some (AnalysisData
                   (generateEnhancedFallbackAnalysis E random language (Some updateText)))
          else None)"

definition updateMealAnalysis_resume ::
  "env \<Rightarrow> (nat \<Rightarrow> real) \<Rightarrow> jsstring \<Rightarrow> jsstring \<Rightarrow> completion \<Rightarrow> int \<Rightarrow> server_state
     \<Rightarrow> MealAnalysisResult \<times> server_state" where
  "updateMealAnalysis_resume E random updateText language completion now s =
     (case completion of
        Threw e \<Rightarrow> (generateEnhancedFallbackAnalysis E random language (Some updateText), s)
      | Content content \<Rightarrow>
          if \<not> nonempty content
            then (generateEnhancedFallbackAnalysis E random language (Some updateText), s)
          else
            (let result = parseAnalysisResponse E random (or_empty content) language
             in (result,
                 s\<lparr>requestCache :=
                     setCachedResponse (update_key updateText language) (AnalysisData result)
                       now (requestCache s)\<rparr>)))"

definition generateText_begin :: "env \<Rightarrow> jsstring \<Rightarrow> int \<Rightarrow> server_state \<Rightarrow> cache_data option" where
  "generateText_begin E prompt now s =
     (case cache_hit (createRequestKey prompt (ascii ''text'')) now (requestCache s) of
        Some cached \<Rightarrow> Some cached
      | None \<Rightarrow>
          if \<not> openai_configured E
            then Some (TextData (ascii
                   ''AI text generation is not available. Please configure OpenAI API key.''))
          else None)"

definition generateText_resume ::
  "jsstring \<Rightarrow> completion \<Rightarrow> int \<Rightarrow> server_state \<Rightarrow> jsstring \<times> server_state" where
  "generateText_resume prompt completion now s =
     (case completion of
        Threw e \<Rightarrow> (ascii ''Text generation failed. Please try again.'', s)
      | Content content \<Rightarrow>
          (let result = or_empty content
           in (result,
               s\<lparr>requestCache :=
                   setCachedResponse (createRequestKey prompt (ascii ''text'')) (TextData result)
                     now (requestCache s)\<rparr>)))"

text \<open>The fields of a \<open>MealPlanRequest\<close> that the request key is made of.\<close>

record MealPlanRequest =
  target_calories_daily :: jsnum
  meals_per_day :: jsnum
  dietary_preferences :: "jsstring list"

definition mealplan_key :: "env \<Rightarrow> 'a MealPlanRequest_scheme \<Rightarrow> jsstring" where
  "mealplan_key E request =
     createRequestKey
       (ascii ''mealplan_'' @ NumberToString E (target_calories_daily request) @ ascii ''_'' @
        NumberToString E (meals_per_day request) @ ascii ''_'' @
        join (ascii '','') (dietary_preferences request))
       (ascii ''mealplan'')"

text \<open>
  What \<open>generateMealPlan\<close> returns: a value read from or written to the cache, or the
  value of \<open>generateFallbackMealPlan (request)\<close>, which is built from the request and the
  random source and never reaches the cache.
\<close>

datatype plan_reply = PlanValue cache_data | FallbackMealPlan

definition generateMealPlan_begin ::
  "env \<Rightarrow> 'a MealPlanRequest_scheme \<Rightarrow> int \<Rightarrow> server_state \<Rightarrow> plan_reply option" where
  "generateMealPlan_begin E request now s =
     (case cache_hit (mealplan_key E request) now (requestCache s) of
        Some cached \<Rightarrow> Some (PlanValue cached)
      | None \<Rightarrow> if \<not> openai_configured E then Some FallbackMealPlan else None)"

definition generateMealPlan_resume ::
  "env \<Rightarrow> 'a MealPlanRequest_scheme \<Rightarrow> completion \<Rightarrow> int \<Rightarrow> server_state
     \<Rightarrow> plan_reply \<times> server_state" where
  "generateMealPlan_resume E request completion now s =
     (case completion of
        Threw e \<Rightarrow> (FallbackMealPlan, s)
      | Content content \<Rightarrow>
          if \<not> nonempty content then (FallbackMealPlan, s)
          else
            (case extract_and_parse E (or_empty content) of
               None \<Rightarrow> (FallbackMealPlan, s)
             | Some result \<Rightarrow>
                 (PlanValue (PlanData result),
                  s\<lparr>requestCache :=
                      setCachedResponse (mealplan_key E request) (PlanData result) now
                        (requestCache s)\<rparr>)))"

definition clearCaches :: "server_state \<Rightarrow> server_state" where
  "clearCaches s = s\<lparr>requestCache := [], requestQueue := Map.empty\<rparr>"

subsection \<open>Runs of the service\<close>

text \<open>
  The steps that change the state, each run without interruption. A step that is not
  enabled (no call suspended on the promise, no such timer) leaves the state as it is.
\<close>

datatype event =
    AnalyzeMealImage jsstring jsstring "jsstring option" int
  | AnalysisSettled nat completion "nat \<Rightarrow> real" int
  | QueueTimer jsstring
  | UpdateResumed jsstring jsstring completion "nat \<Rightarrow> real" int
  | TextResumed jsstring completion int
  | MealPlanResumed MealPlanRequest completion int
  | ClearCaches

fun step :: "env \<Rightarrow> event \<Rightarrow> server_state \<Rightarrow> server_state" where
  "step E (AnalyzeMealImage imageBase64 language updateText now) s =
     snd (analyzeMealImage imageBase64 language updateText now s)"
| "step E (AnalysisSettled p completion random now) s =
     (case analyzeMealImage_settled E p completion random now s of
        None \<Rightarrow> s | Some (result, s') \<Rightarrow> s')"
| "step E (QueueTimer requestKey) s =
     (case analyzeMealImage_timer requestKey s of None \<Rightarrow> s | Some s' \<Rightarrow> s')"
| "step E (UpdateResumed updateText language completion random now) s =
     snd (updateMealAnalysis_resume E random updateText language completion now s)"
| "step E (TextResumed prompt completion now) s =
     snd (generateText_resume prompt completion now s)"
| "step E (MealPlanResumed request completion now) s =
     snd (generateMealPlan_resume E request completion now s)"
| "step E ClearCaches s = clearCaches s"

definition run :: "env \<Rightarrow> event list \<Rightarrow> server_state \<Rightarrow> server_state" where
  "run E events s = foldl (\<lambda>s ev. step E ev s) s events"

section \<open>Sample inputs\<close>

subsection \<open>Client\<close>

text \<open>
  Operations that fail in every attempt with status 500, that are aborted once and then
  succeed, and transports that deliver a 401 or a 403; a phone whose stores work and one
  whose \<open>SecureStore\<close> removal throws, signed in; and the client with no request
  under way.
\<close>

definition server_error :: "nat \<Rightarrow> request_error" where
  "server_error k =
     \<lparr>response_status = Some 500, error_name = ascii ''AxiosError'', error_detail = [k]\<rparr>"

definition always_failing :: "nat \<Rightarrow> unit \<Rightarrow> (request_error + unit) \<times> unit" where
  "always_failing k s = (Inl (server_error k), s)"

definition abort_error :: request_error where
  "abort_error =
     \<lparr>response_status = None, error_name = ascii ''AbortError'', error_detail = []\<rparr>"

definition aborted_once :: "nat \<Rightarrow> unit \<Rightarrow> (request_error + unit) \<times> unit" where
  "aborted_once k s = (if k = 1 then (Inl abort_error, s) else (Inr (), s))"

definition unauthorized :: request_error where
  "unauthorized =
     \<lparr>response_status = Some 401, error_name = ascii ''AxiosError'', error_detail = []\<rparr>"

definition rejecting :: "nat \<Rightarrow> request_error + unit" where
  "rejecting k = Inl unauthorized"

definition forbidden :: request_error where
  "forbidden =
     \<lparr>response_status = Some 403, error_name = ascii ''AxiosError'', error_detail = []\<rparr>"

definition refusing :: "nat \<Rightarrow> request_error + unit" where
  "refusing k = Inl forbidden"

definition phone :: device where
  "phone =
     \<lparr>os = Native, has_window_location = False, localStorage_removeItem_throws = False,
      secureStore_deleteItemAsync_throws = False, asyncStorage_removeItem_throws = False,
      localStorage_getItem_throws = False, secureStore_getItemAsync_throws = False,
      asyncStorage_getItem_throws = False\<rparr>"

definition locked_phone :: device where
  "locked_phone = phone\<lparr>secureStore_deleteItemAsync_throws := True\<rparr>"

definition signed_in :: client_state where
  "signed_in =
     \<lparr>localStorage_auth_token = None, secureStore_auth_token_secure = Some (ascii ''t''),
      asyncStorage_auth_token = Some (ascii ''t''), location_href = None\<rparr>"

definition no_requests :: nutrition_state where
  "no_requests =
     \<lparr>nutrition_requestQueue = Map.empty, underlying_requests = 0,
      nutrition_awaited = Map.empty, nutrition_timers = []\<rparr>"

subsection \<open>Server\<close>

text \<open>
  An environment with a configured client, exact arithmetic and parsing helpers that
  throw, one whose helpers give a fixed value and one without a client; a random source;
  a call; two errors of the request; two responses.
\<close>

definition sample_env :: env where
  "sample_env =
     \<lparr>openai_configured = True, extract_and_parse = (\<lambda>content. None),
      StringToNumber = (\<lambda>s. NaN), ObjectToNumber = (\<lambda>v. Some NaN),
      NumberToString = (\<lambda>n. []), fl = (\<lambda>x. x)\<rparr>"

definition parsing_to :: "json \<Rightarrow> env" where
  "parsing_to parsed = sample_env\<lparr>extract_and_parse := (\<lambda>content. Some parsed)\<rparr>"

definition some_random :: "nat \<Rightarrow> real" where
  "some_random i = 7 / 10"

definition english :: jsstring where
  "english = ascii ''english''"

definition photo :: jsstring where
  "photo = ascii ''abc''"

definition photo_key :: jsstring where
  "photo_key = analysis_key photo english None"

definition rate_limited :: openai_error where
  "rate_limited =
     \<lparr>error_code = Some (ascii ''rate_limit_exceeded''), error_message = None\<rparr>"

definition connection_reset :: openai_error where
  "connection_reset =
     \<lparr>error_code = Some (ascii ''ECONNRESET''), error_message = Some (ascii ''socket hang up'')\<rparr>"

definition unconfigured_env :: env where
  "unconfigured_env = sample_env\<lparr>openai_configured := False\<rparr>"

definition example_object :: json where
  "example_object =
     JObj [(ascii ''calories'', JStr (ascii ''450'')), (ascii ''confidence'', JNum (Fin 150))]"

definition zero_confidence :: json where
  "zero_confidence = JObj [(ascii ''confidence'', JNum (Fin 0))]"

text \<open>A cache of 100 entries, and one of two.\<close>

definition full_cache :: cache where
  "full_cache = map (\<lambda>i. ([i], TextData [], 0)) [0 ..< 100]"

definition full_state :: server_state where
  "full_state = initial_state\<lparr>requestCache := full_cache\<rparr>"

definition two_entries :: cache where
  "two_entries = [([1], TextData [7], 0), ([2], TextData [7], 0)]"

text \<open>
  Three runs of the service. In the first a call is answered and its timer fires. In the
  second the entry of that call has expired when a second call starts a request, which
  ends in a rate limit error. In the third \<open>clearCaches\<close> runs while a first request is
  pending, a second call starts a second request, and the first request then ends.
\<close>

definition stored_once :: "event list" where
  "stored_once =
     [AnalyzeMealImage photo english None 0,
      AnalysisSettled 0 (Content (Some photo)) some_random 1,
      QueueTimer photo_key]"

definition expired_and_in_flight :: "event list" where
  "expired_and_in_flight =
     [AnalyzeMealImage photo english None 0,
      AnalysisSettled 0 (Content (Some photo)) some_random 1,
      QueueTimer photo_key,
      AnalyzeMealImage photo english None 600001,
      AnalysisSettled 1 (Threw rate_limited) some_random 600002]"

definition cleared_while_pending :: "event list" where
  "cleared_while_pending =
     [AnalyzeMealImage photo english None 0,
      ClearCaches,
      AnalyzeMealImage photo english None 1,
      AnalysisSettled 0 (Content (Some photo)) some_random 2]"

section \<open>Properties of the retry wrapper\<close>

lemma retryRequest_success:
  "requestFn a s = (Inr v, s') \<Longrightarrow>
   retryRequest requestFn a s = (\<lparr>outcome = Inr v, attempts = 1, delays = []\<rparr>, s')"
  by (subst retryRequest.simps) simp

lemma retryRequest_stop:
  "requestFn a s = (Inl e, s') \<Longrightarrow> a \<ge> retryAttempts \<or> no_retry e \<Longrightarrow>
   retryRequest requestFn a s = (\<lparr>outcome = Inl e, attempts = 1, delays = []\<rparr>, s')"
  by (subst retryRequest.simps) auto

lemma retryRequest_again:
  "requestFn a s = (Inl e, s') \<Longrightarrow> a < retryAttempts \<Longrightarrow> \<not> no_retry e \<Longrightarrow>
   retryRequest requestFn a s = later (backoff_delay a) (retryRequest requestFn (a + 1) s')"
  by (subst retryRequest.simps) simp

lemma attempts_later: "attempts (fst (later d r)) = Suc (attempts (fst r))"
  by (cases r) (simp add: later_def)

lemma retryRequest_attempts_pos: "1 \<le> attempts (fst (retryRequest requestFn a s))"
proof (cases "requestFn a s")
  case (Pair res s')
  show ?thesis
  proof (cases res)
    case (Inr v)
    with Pair show ?thesis by (simp add: retryRequest_success)
  next
    case (Inl e)
    show ?thesis
    proof (cases "a \<ge> retryAttempts \<or> no_retry e")
      case True
      with Pair Inl show ?thesis by (simp add: retryRequest_stop)
    next
      case False
      with Pair Inl show ?thesis
        by (simp add: retryRequest_again attempts_later)
    qed
  qed
qed

lemma retryRequest_trace:
  "attempts (fst (retryRequest requestFn a s)) \<le> Suc (retryAttempts - a) \<and>
   delays (fst (retryRequest requestFn a s)) =
     map backoff_delay [a ..< a + attempts (fst (retryRequest requestFn a s)) - 1] \<and>
   (outcome (fst (retryRequest requestFn a s)), snd (retryRequest requestFn a s)) =
     requestFn (a + attempts (fst (retryRequest requestFn a s)) - 1)
       (state_before requestFn a s (attempts (fst (retryRequest requestFn a s)) - 1))"
proof (induction requestFn a s rule: retryRequest.induct)
  case (1 requestFn attempt s)
  show ?case
  proof (cases "requestFn attempt s")
    case (Pair res s')
    show ?thesis
    proof (cases res)
      case (Inr v)
      with Pair show ?thesis by (simp add: retryRequest_success)
    next
      case (Inl e)
      show ?thesis
      proof (cases "attempt \<ge> retryAttempts \<or> no_retry e")
        case True
        with Pair Inl show ?thesis by (simp add: retryRequest_stop)
      next
        case False
        then have na: "\<not> attempt \<ge> retryAttempts" and nr: "\<not> no_retry e" by auto
        have eq: "retryRequest requestFn attempt s =
                  later (backoff_delay attempt) (retryRequest requestFn (attempt + 1) s')"
          using Pair Inl na nr by (simp add: retryRequest_again)
        note IH = "1.IH" [OF Pair [symmetric] Inl na nr]
        obtain r t where rt: "retryRequest requestFn (attempt + 1) s' = (r, t)"
          by (cases "retryRequest requestFn (attempt + 1) s'")
        have pos: "1 \<le> attempts r"
          using retryRequest_attempts_pos [of requestFn "attempt + 1" s'] rt by simp
        then obtain m where m: "attempts r = Suc m" by (cases "attempts r") auto
        from IH rt m na show ?thesis
          unfolding eq rt later_def
          by (auto simp add: Pair upt_conv_Cons simp del: upt_Suc)
      qed
    qed
  qed
qed

lemma backoff_delay_from_1: "1 \<le> k \<Longrightarrow> backoff_delay k = min (1000 * 2 ^ (k - 1)) 5000"
  by (simp add: backoff_delay_def retryDelay_def maxRetryDelay_def)

lemma api_request_outcome: "fst (api_request D delivered s) = delivered"
  by (cases delivered) (simp_all add: api_request_def response_rejected_def)

lemma retryRequest_all_fail:
  assumes fail: "\<And>k t. \<exists>e t'. requestFn k t = (Inl e, t') \<and> \<not> no_retry e"
  shows "attempts (fst (retryRequest requestFn a s)) = Suc (retryAttempts - a)"
  using fail
proof (induction requestFn a s rule: retryRequest.induct)
  case (1 requestFn attempt s)
  obtain e s' where f: "requestFn attempt s = (Inl e, s')" and nr: "\<not> no_retry e"
    using "1.prems" by blast
  show ?case
  proof (cases "attempt \<ge> retryAttempts")
    case True
    with f show ?thesis by (simp add: retryRequest_stop)
  next
    case False
    then have lt: "attempt < retryAttempts" by simp
    have "attempts (fst (retryRequest requestFn (attempt + 1) s')) =
          Suc (retryAttempts - (attempt + 1))"
      using "1.IH" [OF f [symmetric] refl False nr] "1.prems" by blast
    with lt show ?thesis
      using retryRequest_again [of requestFn attempt s e s'] f nr
      by (simp add: attempts_later)
  qed
qed

text \<open>
  Claim C3. Whatever the operation does, a run of \<open>retryRequest\<close> from its default first
  attempt invokes it at least once and at most three times; the delay slept after the
  failure of attempt \<open>k\<close>, before attempt \<open>k + 1\<close>, is \<open>min (1000 * 2 ^ (k - 1)) 5000\<close>
  milliseconds; and the promise settles exactly as the last invocation did, so that when
  the attempts run out the error of the last one reaches the caller unchanged.
\<close>

theorem retryRequest_bounded_backoff:
  "let run = fst (retryRequest requestFn 1 s); n = attempts run in
     1 \<le> n \<and> n \<le> 3 \<and>
     delays run = map (\<lambda>k. min (1000 * 2 ^ (k - 1)) 5000) [1 ..< n] \<and>
     (outcome run, snd (retryRequest requestFn 1 s)) =
       requestFn n (state_before requestFn 1 s (n - 1))"
proof -
  let ?run = "fst (retryRequest requestFn 1 s)"
  let ?n = "attempts ?run"
  note t = retryRequest_trace [of requestFn 1 s]
  have pos: "1 \<le> ?n" by (rule retryRequest_attempts_pos)
  have le: "?n \<le> 3" using t by (simp add: retryAttempts_def)
  have d: "delays ?run = map backoff_delay [1 ..< ?n]"
    using t pos by simp
  have "map backoff_delay [1 ..< ?n] = map (\<lambda>k. min (1000 * 2 ^ (k - 1)) 5000) [1 ..< ?n]"
    by (rule map_cong) (simp_all add: backoff_delay_from_1)
  with d have d': "delays ?run = map (\<lambda>k. min (1000 * 2 ^ (k - 1)) 5000) [1 ..< ?n]"
    by simp
  have o: "(outcome ?run, snd (retryRequest requestFn 1 s)) =
       requestFn ?n (state_before requestFn 1 s (?n - 1))"
    using t pos by simp
  from pos le d' o show ?thesis by (simp add: Let_def)
qed

theorem retryRequest_bounded_backoff_witness:
  "attempts (fst (retryRequest always_failing 1 ())) = 3 \<and>
   delays (fst (retryRequest always_failing 1 ())) = [1000, 2000] \<and>
   outcome (fst (retryRequest always_failing 1 ())) = Inl (server_error 3)"
  using retryRequest_bounded_backoff [of always_failing "()"]
  by (simp add: retryRequest.simps [of always_failing] always_failing_def retryAttempts_def
      no_retry_def server_error_def later_def backoff_delay_def retryDelay_def
      maxRetryDelay_def ascii_def)

text \<open>
  Claim C5, as stated, fails on "clears the stored auth token". On a phone whose
  \<open>SecureStore.deleteItemAsync\<close> throws, the handler of the 401 leaves its \<open>try\<close> block
  before \<open>AsyncStorage.removeItem\<close>: after the one attempt both stores still hold the
  token, and the next request carries it.
\<close>

theorem failed_removal_keeps_token:
  "rejecting 1 = Inl unauthorized \<and> response_status unauthorized = Some 401 \<and>
   attempts (fst (backend_call locked_phone rejecting signed_in)) = 1 \<and>
   outcome (fst (backend_call locked_phone rejecting signed_in)) = Inl unauthorized \<and>
   secureStore_auth_token_secure (snd (backend_call locked_phone rejecting signed_in)) =
     Some (ascii ''t'') \<and>
   asyncStorage_auth_token (snd (backend_call locked_phone rejecting signed_in)) =
     Some (ascii ''t'') \<and>
   request_token locked_phone (snd (backend_call locked_phone rejecting signed_in)) =
     Some (ascii ''t'')"
proof -
  have r: "api_request locked_phone (rejecting 1) signed_in = (Inl unauthorized, signed_in)"
    by (simp add: api_request_def response_rejected_def clear_auth_data_def
        redirect_to_signin_def locked_phone_def phone_def rejecting_def unauthorized_def)
  have n: "no_retry unauthorized"
    by (simp add: no_retry_def unauthorized_def)
  have b: "backend_call locked_phone rejecting signed_in =
      (\<lparr>outcome = Inl unauthorized, attempts = 1, delays = []\<rparr>, signed_in)"
    unfolding backend_call_def using r n by (intro retryRequest_stop) simp_all
  show ?thesis
    unfolding b
    by (simp add: request_token_def nonempty_def locked_phone_def phone_def signed_in_def
        rejecting_def unauthorized_def ascii_def)
qed

text \<open>
  Claim C5, amended. A failure with status 401, 403 or 422 ends the run of \<open>retryRequest\<close>
  in the attempt in which it occurs: a backend call whose first attempt fails so makes
  exactly one attempt and rejects with that error. On a 401 the response interceptor has,
  by then, run its token removal once; when the removals of the platform's stores do not
  throw, the stores hold no token afterwards and the next request carries none. On a 403
  or a 422 the stores are untouched.
\<close>

theorem unauthorized_not_retried:
  "(requestFn a s = (Inl e, s') \<and>
    response_status e \<in> {Some 401, Some 403, Some 422} \<longrightarrow>
      retryRequest requestFn a s = (\<lparr>outcome = Inl e, attempts = 1, delays = []\<rparr>, s')) \<and>
   (transport 1 = Inl e \<and> response_status e = Some 401 \<longrightarrow>
      backend_call D transport c =
        (\<lparr>outcome = Inl e, attempts = 1, delays = []\<rparr>,
         redirect_to_signin D (clear_auth_data D c))) \<and>
   (transport 1 = Inl e \<and> response_status e \<in> {Some 403, Some 422} \<longrightarrow>
      backend_call D transport c = (\<lparr>outcome = Inl e, attempts = 1, delays = []\<rparr>, c)) \<and>
   ((os D = Web \<longrightarrow> \<not> localStorage_removeItem_throws D) \<and>
    (os D = Native \<longrightarrow>
       \<not> secureStore_deleteItemAsync_throws D \<and> \<not> asyncStorage_removeItem_throws D) \<longrightarrow>
      (os D = Web \<longrightarrow>
         localStorage_auth_token (redirect_to_signin D (clear_auth_data D c)) = None) \<and>
      (os D = Native \<longrightarrow>
         secureStore_auth_token_secure (redirect_to_signin D (clear_auth_data D c)) = None \<and>
         asyncStorage_auth_token (redirect_to_signin D (clear_auth_data D c)) = None) \<and>
      request_token D (redirect_to_signin D (clear_auth_data D c)) = None)"
proof (intro conjI impI)
  assume "requestFn a s = (Inl e, s') \<and> response_status e \<in> {Some 401, Some 403, Some 422}"
  then show "retryRequest requestFn a s = (\<lparr>outcome = Inl e, attempts = 1, delays = []\<rparr>, s')"
    by (intro retryRequest_stop) (auto simp: no_retry_def)
next
  assume a: "transport 1 = Inl e \<and> response_status e = Some 401"
  then have "api_request D (transport 1) c = (Inl e, redirect_to_signin D (clear_auth_data D c))"
    by (simp add: api_request_def response_rejected_def)
  then show "backend_call D transport c =
        (\<lparr>outcome = Inl e, attempts = 1, delays = []\<rparr>,
         redirect_to_signin D (clear_auth_data D c))"
    unfolding backend_call_def using a
    by (intro retryRequest_stop) (auto simp: no_retry_def)
next
  assume a: "transport 1 = Inl e \<and> response_status e \<in> {Some 403, Some 422}"
  then have "api_request D (transport 1) c = (Inl e, c)"
    by (auto simp add: api_request_def response_rejected_def)
  then show "backend_call D transport c = (\<lparr>outcome = Inl e, attempts = 1, delays = []\<rparr>, c)"
    unfolding backend_call_def using a
    by (intro retryRequest_stop) (auto simp: no_retry_def)
next
  assume "(os D = Web \<longrightarrow> \<not> localStorage_removeItem_throws D) \<and>
    (os D = Native \<longrightarrow>
       \<not> secureStore_deleteItemAsync_throws D \<and> \<not> asyncStorage_removeItem_throws D)"
    and "os D = Web"
  then show "localStorage_auth_token (redirect_to_signin D (clear_auth_data D c)) = None"
    by (simp add: redirect_to_signin_def clear_auth_data_def)
next
  assume a: "(os D = Web \<longrightarrow> \<not> localStorage_removeItem_throws D) \<and>
    (os D = Native \<longrightarrow>
       \<not> secureStore_deleteItemAsync_throws D \<and> \<not> asyncStorage_removeItem_throws D)"
    and b: "os D = Native"
  from a b show "secureStore_auth_token_secure (redirect_to_signin D (clear_auth_data D c)) = None"
    by (simp add: redirect_to_signin_def clear_auth_data_def)
  from a b show "asyncStorage_auth_token (redirect_to_signin D (clear_auth_data D c)) = None"
    by (simp add: redirect_to_signin_def clear_auth_data_def)
next
  assume a: "(os D = Web \<longrightarrow> \<not> localStorage_removeItem_throws D) \<and>
    (os D = Native \<longrightarrow>
       \<not> secureStore_deleteItemAsync_throws D \<and> \<not> asyncStorage_removeItem_throws D)"
  then show "request_token D (redirect_to_signin D (clear_auth_data D c)) = None"
    by (cases "os D")
       (simp_all add: request_token_def redirect_to_signin_def clear_auth_data_def nonempty_def)
qed

theorem unauthorized_not_retried_witness:
  "rejecting 1 = Inl unauthorized \<and> response_status unauthorized = Some 401 \<and>
   os phone = Native \<and> \<not> secureStore_deleteItemAsync_throws phone \<and>
   \<not> asyncStorage_removeItem_throws phone \<and>
   request_token phone signed_in = Some (ascii ''t'') \<and>
   attempts (fst (backend_call phone rejecting signed_in)) = 1 \<and>
   outcome (fst (backend_call phone rejecting signed_in)) = Inl unauthorized \<and>
   request_token phone (snd (backend_call phone rejecting signed_in)) = None \<and>
   secureStore_auth_token_secure (snd (backend_call phone rejecting signed_in)) = None \<and>
   asyncStorage_auth_token (snd (backend_call phone rejecting signed_in)) = None \<and>
   refusing 1 = Inl forbidden \<and> response_status forbidden = Some 403 \<and>
   backend_call phone refusing signed_in =
     (\<lparr>outcome = Inl forbidden, attempts = 1, delays = []\<rparr>, signed_in)"
proof -
  have h: "rejecting 1 = Inl unauthorized \<and> response_status unauthorized = Some 401"
    "os phone = Native \<and> \<not> secureStore_deleteItemAsync_throws phone \<and>
     \<not> asyncStorage_removeItem_throws phone"
    "request_token phone signed_in = Some (ascii ''t'')"
    "refusing 1 = Inl forbidden \<and> response_status forbidden = Some 403"
    by (simp_all add: rejecting_def unauthorized_def refusing_def forbidden_def phone_def
        signed_in_def request_token_def nonempty_def ascii_def)
  from unauthorized_not_retried [of "\<lambda>k. api_request phone (rejecting k)" 1 signed_in
      unauthorized "redirect_to_signin phone (clear_auth_data phone signed_in)"
      rejecting phone signed_in] h
  have a: "backend_call phone rejecting signed_in =
        (\<lparr>outcome = Inl unauthorized, attempts = 1, delays = []\<rparr>,
         redirect_to_signin phone (clear_auth_data phone signed_in))"
    "secureStore_auth_token_secure
       (redirect_to_signin phone (clear_auth_data phone signed_in)) = None"
    "asyncStorage_auth_token
       (redirect_to_signin phone (clear_auth_data phone signed_in)) = None"
    "request_token phone (redirect_to_signin phone (clear_auth_data phone signed_in)) = None"
    by simp_all
  from unauthorized_not_retried [of "\<lambda>k. api_request phone (refusing k)" 1 signed_in
      forbidden signed_in refusing phone signed_in] h
  have b: "backend_call phone refusing signed_in =
        (\<lparr>outcome = Inl forbidden, attempts = 1, delays = []\<rparr>, signed_in)"
    by simp
  from h a b show ?thesis by simp
qed

text \<open>
  Claim C6, as stated, fails: an error named \<open>AbortError\<close> has no status 401, 403 or 422,
  yet the wrapper rethrows it after the first attempt, even where a second attempt would
  have succeeded.
\<close>

theorem abort_error_not_retried:
  "response_status abort_error \<notin> {Some 401, Some 403, Some 422} \<and>
   aborted_once 1 () = (Inl abort_error, ()) \<and>
   aborted_once 2 () = (Inr (), ()) \<and>
   attempts (fst (retryRequest aborted_once 1 ())) = 1 \<and>
   outcome (fst (retryRequest aborted_once 1 ())) = Inl abort_error"
  by (simp add: retryRequest.simps [of aborted_once] aborted_once_def abort_error_def
      retryAttempts_def no_retry_def)

text \<open>
  Claim C6, amended. A failure in an attempt below the ceiling whose status is none of
  401, 403 and 422 and whose name is not \<open>AbortError\<close> is followed, after the backoff
  delay, by the next attempt; and when every attempt fails in that way the run makes all
  three attempts.
\<close>

theorem other_failures_retried:
  "(requestFn a s = (Inl e, s') \<and> a < retryAttempts \<and>
    response_status e \<notin> {Some 401, Some 403, Some 422} \<and>
    error_name e \<noteq> ascii ''AbortError'' \<longrightarrow>
      retryRequest requestFn a s =
        later (backoff_delay a) (retryRequest requestFn (a + 1) s') \<and>
      2 \<le> attempts (fst (retryRequest requestFn a s))) \<and>
   ((\<forall>k t. \<exists>e t'. requestFn k t = (Inl e, t') \<and>
        response_status e \<notin> {Some 401, Some 403, Some 422} \<and>
        error_name e \<noteq> ascii ''AbortError'') \<longrightarrow>
      attempts (fst (retryRequest requestFn 1 s)) = retryAttempts)"
proof (intro conjI impI)
  assume a: "requestFn a s = (Inl e, s') \<and> a < retryAttempts \<and>
    response_status e \<notin> {Some 401, Some 403, Some 422} \<and>
    error_name e \<noteq> ascii ''AbortError''"
  then have nr: "\<not> no_retry e" by (auto simp: no_retry_def)
  with a show eq: "retryRequest requestFn a s =
        later (backoff_delay a) (retryRequest requestFn (a + 1) s')"
    by (simp add: retryRequest_again)
  show "2 \<le> attempts (fst (retryRequest requestFn a s))"
    unfolding eq attempts_later
    using retryRequest_attempts_pos [of requestFn "a + 1" s'] by simp
next
  assume all: "\<forall>k t. \<exists>e t'. requestFn k t = (Inl e, t') \<and>
        response_status e \<notin> {Some 401, Some 403, Some 422} \<and>
        error_name e \<noteq> ascii ''AbortError''"
  have fail: "\<exists>e t'. requestFn k t = (Inl e, t') \<and> \<not> no_retry e" for k t
    using all [rule_format, of k t] by (auto simp: no_retry_def)
  show "attempts (fst (retryRequest requestFn 1 s)) = retryAttempts"
    using retryRequest_all_fail [of requestFn 1 s] fail by (simp add: retryAttempts_def)
qed

theorem other_failures_retried_witness:
  "always_failing 1 () = (Inl (server_error 1), ()) \<and> 1 < retryAttempts \<and>
   response_status (server_error 1) \<notin> {Some 401, Some 403, Some 422} \<and>
   error_name (server_error 1) \<noteq> ascii ''AbortError'' \<and>
   2 \<le> attempts (fst (retryRequest always_failing 1 ())) \<and>
   attempts (fst (retryRequest always_failing 1 ())) = 3"
proof -
  have h: "always_failing 1 () = (Inl (server_error 1), ()) \<and> 1 < retryAttempts \<and>
      response_status (server_error 1) \<notin> {Some 401, Some 403, Some 422} \<and>
      error_name (server_error 1) \<noteq> ascii ''AbortError''"
    by (simp add: always_failing_def server_error_def retryAttempts_def ascii_def)
  have all: "\<forall>k t. \<exists>e t'. always_failing k t = (Inl e, t') \<and>
      response_status e \<notin> {Some 401, Some 403, Some 422} \<and>
      error_name e \<noteq> ascii ''AbortError''"
    by (simp add: always_failing_def server_error_def ascii_def)
  from other_failures_retried [of always_failing 1 "()" "server_error 1" "()"] h all
  have "2 \<le> attempts (fst (retryRequest always_failing 1 ())) \<and>
      attempts (fst (retryRequest always_failing 1 ())) = retryAttempts"
    by blast
  with h show ?thesis by (simp add: retryAttempts_def)
qed

section \<open>Properties of the response cache\<close>

lemma update_fresh: "key \<notin> fst ` set c \<Longrightarrow> AList.update key v c = c @ [(key, v)]"
  by (induction c) auto

lemma length_update_le: "length (AList.update key v c) \<le> Suc (length c)"
  by (induction c) auto

lemma length_setCachedResponse_le:
  "length c \<le> MAX_CACHE_SIZE \<Longrightarrow> length (setCachedResponse key data now c) \<le> MAX_CACHE_SIZE"
proof (cases "length c \<ge> MAX_CACHE_SIZE")
  case False
  then show ?thesis
    using length_update_le [of key "(data, now)" c] by (simp add: setCachedResponse_def)
next
  case True
  assume le: "length c \<le> MAX_CACHE_SIZE"
  from True obtain k e rest where c: "c = (k, e) # rest"
    by (cases c) (auto simp: MAX_CACHE_SIZE_def)
  have "length (AList.delete k c) \<le> length rest"
    using AList.length_delete_le [of k rest] by (simp add: c)
  then have "length (AList.update key (data, now) (AList.delete k c)) \<le> Suc (length rest)"
    using length_update_le [of key "(data, now)" "AList.delete k c"] by simp
  with True le show ?thesis by (simp add: setCachedResponse_def c)
qed

text \<open>
  Claim C8. When the cache holds exactly \<open>MAX_CACHE_SIZE\<close> entries, storing under a key
  that is not in it removes the head of the insertion order, the oldest-inserted key, and
  nothing else, and appends the new entry: the size stays at the maximum. The order is
  that of first insertion and not of use: storing again under a key that is present
  leaves the order of the keys as it is, and reading does not touch the cache.
\<close>

theorem setCachedResponse_evicts_oldest:
  "(length c = MAX_CACHE_SIZE \<and> distinct (map fst c) \<and> key \<notin> fst ` set c \<longrightarrow>
      setCachedResponse key data now c = tl c @ [(key, data, now)] \<and>
      map fst (setCachedResponse key data now c) = tl (map fst c) @ [key] \<and>
      length (setCachedResponse key data now c) = MAX_CACHE_SIZE \<and>
      fst (hd c) \<notin> fst ` set (setCachedResponse key data now c)) \<and>
   (length c < MAX_CACHE_SIZE \<and> key \<in> fst ` set c \<longrightarrow>
      map fst (setCachedResponse key data now c) = map fst c)"
proof (intro conjI impI)
  assume a: "length c = MAX_CACHE_SIZE \<and> distinct (map fst c) \<and> key \<notin> fst ` set c"
  then obtain k e rest where c: "c = (k, e) # rest"
    by (cases c) (auto simp: MAX_CACHE_SIZE_def)
  from a c have k: "k \<notin> fst ` set rest" and key: "key \<notin> fst ` set rest" and ne: "key \<noteq> k"
    by auto
  have del: "AList.delete k c = rest"
    using k by (simp add: c)
  show eq: "setCachedResponse key data now c = tl c @ [(key, data, now)]"
    using a key del by (simp add: setCachedResponse_def c update_fresh)
  show "map fst (setCachedResponse key data now c) = tl (map fst c) @ [key]"
    unfolding eq by (simp add: c)
  show "length (setCachedResponse key data now c) = MAX_CACHE_SIZE"
    unfolding eq using a by (simp add: c)
  show "fst (hd c) \<notin> fst ` set (setCachedResponse key data now c)"
    unfolding eq using k ne by (simp add: c)
next
  assume "length c < MAX_CACHE_SIZE \<and> key \<in> fst ` set c"
  then show "map fst (setCachedResponse key data now c) = map fst c"
    by (simp add: setCachedResponse_def AList.update_keys)
qed

theorem setCachedResponse_evicts_oldest_witness:
  "length full_cache = MAX_CACHE_SIZE \<and> distinct (map fst full_cache) \<and>
   [100] \<notin> fst ` set full_cache \<and>
   setCachedResponse [100] (TextData [7]) 5 full_cache = tl full_cache @ [([100], TextData [7], 5)] \<and>
   fst (hd full_cache) = [0] \<and>
   fst (hd full_cache) \<notin> fst ` set (setCachedResponse [100] (TextData [7]) 5 full_cache) \<and>
   length two_entries < MAX_CACHE_SIZE \<and> [1] \<in> fst ` set two_entries \<and>
   map fst (setCachedResponse [1] (TextData [8]) 5 two_entries) = [[1], [2]]"
proof -
  have h: "length full_cache = MAX_CACHE_SIZE \<and> distinct (map fst full_cache) \<and>
           [100] \<notin> fst ` set full_cache"
    by (auto simp: full_cache_def MAX_CACHE_SIZE_def distinct_map inj_on_def comp_def)
  have hd: "fst (hd full_cache) = [0]"
    by (simp add: full_cache_def upt_conv_Cons)
  have g: "length two_entries < MAX_CACHE_SIZE \<and> [1] \<in> fst ` set two_entries"
    "map fst two_entries = [[1], [2]]"
    by (simp_all add: two_entries_def MAX_CACHE_SIZE_def)
  from setCachedResponse_evicts_oldest [of full_cache "[100]" "TextData [7]" 5] h hd
  have a: "setCachedResponse [100] (TextData [7]) 5 full_cache =
             tl full_cache @ [([100], TextData [7], 5)] \<and>
           fst (hd full_cache) \<notin> fst ` set (setCachedResponse [100] (TextData [7]) 5 full_cache)"
    by blast
  from setCachedResponse_evicts_oldest [of two_entries "[1]" "TextData [8]" 5] g
  have b: "map fst (setCachedResponse [1] (TextData [8]) 5 two_entries) = [[1], [2]]"
    by simp
  from h hd g a b show ?thesis by blast
qed

lemma step_cache_bounded:
  "length (requestCache s) \<le> MAX_CACHE_SIZE \<Longrightarrow>
   length (requestCache (step E ev s)) \<le> MAX_CACHE_SIZE"
proof (cases ev)
  case (AnalyzeMealImage imageBase64 language updateText now)
  assume "length (requestCache s) \<le> MAX_CACHE_SIZE"
  then show ?thesis
    by (simp add: AnalyzeMealImage analyzeMealImage_def Let_def split: option.splits)
next
  case (AnalysisSettled p completion random now)
  assume "length (requestCache s) \<le> MAX_CACHE_SIZE"
  then show ?thesis
    by (auto simp add: AnalysisSettled analyzeMealImage_settled_def Let_def
        length_setCachedResponse_le split: option.splits sum.splits)
next
  case (QueueTimer requestKey)
  assume "length (requestCache s) \<le> MAX_CACHE_SIZE"
  then show ?thesis
    by (simp add: QueueTimer analyzeMealImage_timer_def)
next
  case (UpdateResumed updateText language completion random now)
  assume "length (requestCache s) \<le> MAX_CACHE_SIZE"
  then show ?thesis
    by (simp add: UpdateResumed updateMealAnalysis_resume_def Let_def
        length_setCachedResponse_le split: completion.splits)
next
  case (TextResumed prompt completion now)
  assume "length (requestCache s) \<le> MAX_CACHE_SIZE"
  then show ?thesis
    by (simp add: TextResumed generateText_resume_def Let_def
        length_setCachedResponse_le split: completion.splits)
next
  case (MealPlanResumed request completion now)
  assume "length (requestCache s) \<le> MAX_CACHE_SIZE"
  then show ?thesis
    by (simp add: MealPlanResumed generateMealPlan_resume_def Let_def
        length_setCachedResponse_le split: completion.splits option.splits)
next
  case ClearCaches
  then show ?thesis by (simp add: clearCaches_def)
qed

lemma run_cache_bounded:
  "length (requestCache s) \<le> MAX_CACHE_SIZE \<Longrightarrow>
   length (requestCache (run E events s)) \<le> MAX_CACHE_SIZE"
  unfolding run_def
  by (induction events arbitrary: s) (simp_all add: step_cache_bounded)

lemma distinct_setCachedResponse:
  "distinct (map fst c) \<Longrightarrow> distinct (map fst (setCachedResponse key data now c))"
  by (auto simp add: setCachedResponse_def AList.distinct_update AList.distinct_delete
      split: list.splits simp del: AList.delete_simps)

lemma step_cache_distinct:
  "distinct (map fst (requestCache s)) \<Longrightarrow> distinct (map fst (requestCache (step E ev s)))"
proof (cases ev)
  case (AnalyzeMealImage imageBase64 language updateText now)
  assume "distinct (map fst (requestCache s))"
  then show ?thesis
    by (simp add: AnalyzeMealImage analyzeMealImage_def Let_def split: option.splits)
next
  case (AnalysisSettled p completion random now)
  assume "distinct (map fst (requestCache s))"
  then show ?thesis
    by (auto simp add: AnalysisSettled analyzeMealImage_settled_def Let_def
        distinct_setCachedResponse split: option.splits sum.splits)
next
  case (QueueTimer requestKey)
  assume "distinct (map fst (requestCache s))"
  then show ?thesis
    by (simp add: QueueTimer analyzeMealImage_timer_def)
next
  case (UpdateResumed updateText language completion random now)
  assume "distinct (map fst (requestCache s))"
  then show ?thesis
    by (simp add: UpdateResumed updateMealAnalysis_resume_def Let_def
        distinct_setCachedResponse split: completion.splits)
next
  case (TextResumed prompt completion now)
  assume "distinct (map fst (requestCache s))"
  then show ?thesis
    by (simp add: TextResumed generateText_resume_def Let_def
        distinct_setCachedResponse split: completion.splits)
next
  case (MealPlanResumed request completion now)
  assume "distinct (map fst (requestCache s))"
  then show ?thesis
    by (simp add: MealPlanResumed generateMealPlan_resume_def Let_def
        distinct_setCachedResponse split: completion.splits option.splits)
next
  case ClearCaches
  then show ?thesis by (simp add: clearCaches_def)
qed

lemma run_cache_distinct:
  "distinct (map fst (requestCache s)) \<Longrightarrow> distinct (map fst (requestCache (run E events s)))"
  unfolding run_def
  by (induction events arbitrary: s) (simp_all add: step_cache_distinct)

text \<open>
  Claim C10. The cache never outgrows \<open>MAX_CACHE_SIZE\<close>, which is 100:
  \<open>setCachedResponse\<close>, the only function that adds an entry, keeps a cache of at most
  100 entries at most that large, since at 100 it deletes the oldest key before it sets
  the new one; so does every step of the service (the three parts of \<open>analyzeMealImage\<close>,
  the resumptions of \<open>updateMealAnalysis\<close>, \<open>generateText\<close> and \<open>generateMealPlan\<close>,
  and \<open>clearCaches\<close>; \<open>getCachedResponse\<close> and the first parts of the three operations
  only read); and so the bound holds after every run from the empty cache. The keys stay
  distinct in every run, so that the length of the list is the size of the \<open>Map\<close>.
\<close>

theorem requestCache_bounded:
  "MAX_CACHE_SIZE = 100 \<and>
   (length c \<le> MAX_CACHE_SIZE \<longrightarrow>
      length (setCachedResponse key data now c) \<le> MAX_CACHE_SIZE) \<and>
   (length (requestCache s) \<le> MAX_CACHE_SIZE \<longrightarrow>
      length (requestCache (step E ev s)) \<le> MAX_CACHE_SIZE) \<and>
   length (requestCache (run E events initial_state)) \<le> MAX_CACHE_SIZE \<and>
   distinct (map fst (requestCache (run E events initial_state)))"
  using length_setCachedResponse_le step_cache_bounded
    run_cache_bounded [of initial_state E events] run_cache_distinct [of initial_state E events]
  by (simp add: MAX_CACHE_SIZE_def initial_state_def)

theorem requestCache_bounded_witness:
  "length (requestCache full_state) = 100 \<and>
   length (requestCache (step sample_env (TextResumed [100] (Content (Some [7])) 5) full_state)) \<le> 100 \<and>
   length (setCachedResponse [100] (TextData [7]) 5 full_cache) \<le> 100"
proof -
  have h: "length (requestCache full_state) = 100" "length full_cache = 100"
    by (simp_all add: full_state_def full_cache_def)
  have m: "MAX_CACHE_SIZE = 100"
    by (simp add: MAX_CACHE_SIZE_def)
  from requestCache_bounded [of full_cache "[100]" "TextData [7]" 5 full_state sample_env
      "TextResumed [100] (Content (Some [7])) 5" "[]"] h
  show ?thesis unfolding m by simp
qed

section \<open>Properties of the analysis\<close>

lemma base_calories_range:
  assumes f: "rounding f" and r: "0 \<le> r" "r < 1"
  shows "\<exists>k::int. f (300 + of_int \<lfloor>f (r * 400)\<rfloor>) = of_int k \<and> 300 \<le> k \<and> k \<le> 700"
proof -
  from f have mono: "\<And>x y. x \<le> y \<Longrightarrow> f x \<le> f y"
    and exact: "\<And>k::int. \<bar>k\<bar> \<le> 2 ^ 53 \<Longrightarrow> f (of_int k) = of_int k"
    by (auto simp: rounding_def)
  have f0: "f 0 = 0" using exact [of 0] by simp
  have f400: "f 400 = 400" using exact [of 400] by simp
  have "f 0 \<le> f (r * 400)" using r by (intro mono) simp
  moreover have "f (r * 400) \<le> f 400" using r by (intro mono) simp
  ultimately have b: "0 \<le> f (r * 400)" "f (r * 400) \<le> 400" by (simp_all add: f0 f400)
  let ?k = "\<lfloor>f (r * 400)\<rfloor>"
  have k: "0 \<le> ?k" "?k \<le> 400" using b by (simp_all add: le_floor_iff floor_le_iff)
  have "f (300 + of_int ?k) = f (of_int (300 + ?k))" by simp
  also have "\<dots> = of_int (300 + ?k)" using k by (intro exact) simp
  finally show ?thesis using k by (intro exI [of _ "300 + ?k"]) simp
qed

lemma fallback_confidence:
  "confidence (generateEnhancedFallbackAnalysis E random language updateText) = Fin 65"
  by (simp add: generateEnhancedFallbackAnalysis_def Let_def)

lemma fallback_calories:
  "calories (generateEnhancedFallbackAnalysis E random language updateText) =
     Fin (fl E (300 + of_int \<lfloor>fl E (random 0 * 400)\<rfloor>))"
  by (simp add: generateEnhancedFallbackAnalysis_def Let_def fadd_def fmul_def)

lemma fallback_numbers:
  "calories (generateEnhancedFallbackAnalysis E random language updateText) \<noteq> NaN"
  "protein (generateEnhancedFallbackAnalysis E random language updateText) \<noteq> NaN"
  "carbs (generateEnhancedFallbackAnalysis E random language updateText) \<noteq> NaN"
  "fat (generateEnhancedFallbackAnalysis E random language updateText) \<noteq> NaN"
  "fiber (generateEnhancedFallbackAnalysis E random language updateText) \<noteq> NaN"
  "sugar (generateEnhancedFallbackAnalysis E random language updateText) \<noteq> NaN"
  "sodium (generateEnhancedFallbackAnalysis E random language updateText) \<noteq> NaN"
  by (simp_all add: generateEnhancedFallbackAnalysis_def Let_def Math_round_def)

lemma number_or_number: "number_or E parsed k d = Some n \<Longrightarrow> d \<noteq> NaN \<Longrightarrow> n \<noteq> NaN"
  by (auto simp: number_or_def truthy_num_def split: if_splits)

lemma clamp_range:
  "n \<noteq> NaN \<Longrightarrow> \<exists>c. Math_min (Fin 100) (Math_max (Fin 1) n) = Fin c \<and> 1 \<le> c \<and> c \<le> 100"
  by (cases n) auto

lemma try_fields:
  assumes "parseAnalysisResponse_try E language parsed = Some r"
  shows "\<exists>cal pro car fa fi su so co.
     number_or E parsed (ascii ''calories'') (Fin 0) = Some cal \<and> calories r = cal \<and>
     number_or E parsed (ascii ''protein'') (Fin 0) = Some pro \<and> protein r = pro \<and>
     number_or E parsed (ascii ''carbs'') (Fin 0) = Some car \<and> carbs r = car \<and>
     number_or E parsed (ascii ''fat'') (Fin 0) = Some fa \<and> fat r = fa \<and>
     number_or E parsed (ascii ''fiber'') (Fin 0) = Some fi \<and> fiber r = fi \<and>
     number_or E parsed (ascii ''sugar'') (Fin 0) = Some su \<and> sugar r = su \<and>
     number_or E parsed (ascii ''sodium'') (Fin 0) = Some so \<and> sodium r = so \<and>
     number_or E parsed (ascii ''confidence'') (Fin 75) = Some co \<and>
     confidence r = Math_min (Fin 100) (Math_max (Fin 1) co)"
  using assms
  by (auto simp: parseAnalysisResponse_try_def bind_eq_Some_conv split: if_splits)


lemma parse_failed_fallback:
  "extract_and_parse E content \<in> {None, Some JNull} \<Longrightarrow>
   parseAnalysisResponse E random content language =
     generateEnhancedFallbackAnalysis E random language None"
  by (auto simp add: parseAnalysisResponse_def parseAnalysisResponse_try_def)

lemma no_content_is_no_timeout:
  "\<not> string_includes (ascii ''No content in OpenAI response'') (ascii ''timeout'')"
  by (simp add: ascii_def)

lemma content_gives_result:
  "\<exists>r. performMealAnalysis E random language updateText (Content content) = Inr r"
  by (simp add: performMealAnalysis_def analysis_failed_def no_content_is_no_timeout)

text \<open>
  Claim C9. Whatever the language and the update text, and for every value in \<open>[0, 1)\<close>
  that \<open>Math.random\<close> returns, the fallback analysis has confidence 65 and, as calories,
  an integer from 300 to 700. A response that cannot be parsed (the parsing helpers throw,
  or give \<open>null\<close>) is answered with the fallback analysis, by \<open>parseAnalysisResponse\<close> and
  so by \<open>_performMealAnalysis\<close>.
\<close>

theorem fallback_confidence_and_calories:
  "(rounding (fl E) \<and> 0 \<le> random 0 \<and> random 0 < 1 \<longrightarrow>
      confidence (generateEnhancedFallbackAnalysis E random language updateText) = Fin 65 \<and>
      (\<exists>k::int. calories (generateEnhancedFallbackAnalysis E random language updateText) =
                   Fin (of_int k) \<and> 300 \<le> k \<and> k \<le> 700)) \<and>
   (extract_and_parse E content \<in> {None, Some JNull} \<longrightarrow>
      parseAnalysisResponse E random content language =
        generateEnhancedFallbackAnalysis E random language None) \<and>
   (openai_configured E \<and> content \<noteq> [] \<and>
    extract_and_parse E content \<in> {None, Some JNull} \<longrightarrow>
      performMealAnalysis E random language updateText (Content (Some content)) =
        Inr (generateEnhancedFallbackAnalysis E random language None))"
proof (intro conjI impI)
  assume a: "rounding (fl E) \<and> 0 \<le> random 0 \<and> random 0 < 1"
  show "confidence (generateEnhancedFallbackAnalysis E random language updateText) = Fin 65"
    by (rule fallback_confidence)
  from a base_calories_range [of "fl E" "random 0"]
  show "\<exists>k::int. calories (generateEnhancedFallbackAnalysis E random language updateText) =
                   Fin (of_int k) \<and> 300 \<le> k \<and> k \<le> 700"
    by (simp add: fallback_calories)
next
  assume "extract_and_parse E content \<in> {None, Some JNull}"
  then show "parseAnalysisResponse E random content language =
        generateEnhancedFallbackAnalysis E random language None"
    by (rule parse_failed_fallback)
next
  assume "openai_configured E \<and> content \<noteq> [] \<and>
    extract_and_parse E content \<in> {None, Some JNull}"
  then show "performMealAnalysis E random language updateText (Content (Some content)) =
        Inr (generateEnhancedFallbackAnalysis E random language None)"
    using parse_failed_fallback [of E content random language]
    by (simp add: performMealAnalysis_def nonempty_def or_empty_def)
qed

theorem fallback_confidence_and_calories_witness:
  "rounding (fl sample_env) \<and> 0 \<le> some_random 0 \<and> some_random 0 < 1 \<and>
   openai_configured sample_env \<and> extract_and_parse sample_env photo = None \<and>
   photo \<noteq> [] \<and>
   confidence (generateEnhancedFallbackAnalysis sample_env some_random english None) = Fin 65 \<and>
   calories (generateEnhancedFallbackAnalysis sample_env some_random english None) = Fin 580 \<and>
   performMealAnalysis sample_env some_random english None (Content (Some photo)) =
     Inr (generateEnhancedFallbackAnalysis sample_env some_random english None)"
proof -
  have h: "rounding (fl sample_env) \<and> 0 \<le> some_random 0 \<and> some_random 0 < 1"
    "openai_configured sample_env \<and> photo \<noteq> [] \<and> extract_and_parse sample_env photo = None"
    by (simp_all add: rounding_def sample_env_def some_random_def photo_def ascii_def)
  have c: "calories (generateEnhancedFallbackAnalysis sample_env some_random english None) =
           Fin 580"
    by (simp add: fallback_calories sample_env_def some_random_def)
  from fallback_confidence_and_calories [of sample_env some_random english None photo] h c
  show ?thesis by simp
qed

text \<open>
  Claim C4, as stated, fails on "clamped when present": a response whose confidence is
  the number 0 is given the confidence 75, not 0 clamped into \<open>[1, 100]\<close>, which is 1.
\<close>

theorem zero_confidence_defaults:
  "read_property zero_confidence (ascii ''confidence'') = Some (JNum (Fin 0)) \<and>
   Math_min (Fin 100) (Math_max (Fin 1) (Fin 0)) = Fin 1 \<and>
   confidence (parseAnalysisResponse (parsing_to zero_confidence) some_random photo english) =
     Fin 75"
  by (simp add: zero_confidence_def parsing_to_def sample_env_def parseAnalysisResponse_def
      parseAnalysisResponse_try_def number_or_def number_or_undefined_def truthy_num_def
      ascii_def)

text \<open>
  Claim C4, amended. Whatever the response, each of calories, protein, carbs, fat, fiber,
  sugar and sodium of the result is a number and not \<open>NaN\<close>, and the confidence is a
  finite number from 1 to 100. When the \<open>try\<close> block ends without a throw, the confidence
  is 75 if the response's confidence converts to \<open>NaN\<close> (it is absent or not numeric) or
  to zero, and the converted number clamped into \<open>[1, 100]\<close> otherwise. The response with
  calories \<open>"450"\<close> and confidence 150 gives calories 450 and confidence 100.
\<close>

theorem normalizer_fields:
  "(let r = parseAnalysisResponse E random content language in
      calories r \<noteq> NaN \<and> protein r \<noteq> NaN \<and> carbs r \<noteq> NaN \<and> fat r \<noteq> NaN \<and>
      fiber r \<noteq> NaN \<and> sugar r \<noteq> NaN \<and> sodium r \<noteq> NaN \<and>
      (\<exists>c. confidence r = Fin c \<and> 1 \<le> c \<and> c \<le> 100)) \<and>
   (parseAnalysisResponse_try E language parsed = Some r \<and>
    ToNumber E (read_property parsed (ascii ''confidence'')) = Some n \<longrightarrow>
      confidence r =
        (if n = NaN \<or> n = Fin 0 then Fin 75 else Math_min (Fin 100) (Math_max (Fin 1) n))) \<and>
   (extract_and_parse E content = Some example_object \<longrightarrow>
      calories (parseAnalysisResponse E random content language) = Fin 450 \<and>
      confidence (parseAnalysisResponse E random content language) = Fin 100)"
proof (intro conjI impI)
  show "let r = parseAnalysisResponse E random content language in
      calories r \<noteq> NaN \<and> protein r \<noteq> NaN \<and> carbs r \<noteq> NaN \<and> fat r \<noteq> NaN \<and>
      fiber r \<noteq> NaN \<and> sugar r \<noteq> NaN \<and> sodium r \<noteq> NaN \<and>
      (\<exists>c. confidence r = Fin c \<and> 1 \<le> c \<and> c \<le> 100)"
  proof (cases "Option.bind (extract_and_parse E content) (parseAnalysisResponse_try E language)")
    case None
    then have "parseAnalysisResponse E random content language =
               generateEnhancedFallbackAnalysis E random language None"
      by (simp add: parseAnalysisResponse_def)
    then show ?thesis
      by (simp add: Let_def fallback_numbers fallback_confidence)
  next
    case (Some r)
    then have eq: "parseAnalysisResponse E random content language = r"
      by (simp add: parseAnalysisResponse_def)
    from Some obtain parsed where "parseAnalysisResponse_try E language parsed = Some r"
      by (auto simp: bind_eq_Some_conv)
    from try_fields [OF this] obtain cal pro car fa fi su so co where f:
      "number_or E parsed (ascii ''calories'') (Fin 0) = Some cal" "calories r = cal"
      "number_or E parsed (ascii ''protein'') (Fin 0) = Some pro" "protein r = pro"
      "number_or E parsed (ascii ''carbs'') (Fin 0) = Some car" "carbs r = car"
      "number_or E parsed (ascii ''fat'') (Fin 0) = Some fa" "fat r = fa"
      "number_or E parsed (ascii ''fiber'') (Fin 0) = Some fi" "fiber r = fi"
      "number_or E parsed (ascii ''sugar'') (Fin 0) = Some su" "sugar r = su"
      "number_or E parsed (ascii ''sodium'') (Fin 0) = Some so" "sodium r = so"
      "number_or E parsed (ascii ''confidence'') (Fin 75) = Some co"
      "confidence r = Math_min (Fin 100) (Math_max (Fin 1) co)"
      by blast
    have "co \<noteq> NaN" using number_or_number [OF f(15)] by simp
    from clamp_range [OF this] f(16)
    have "\<exists>c. confidence r = Fin c \<and> 1 \<le> c \<and> c \<le> 100" by simp
    moreover have "calories r \<noteq> NaN" "protein r \<noteq> NaN" "carbs r \<noteq> NaN" "fat r \<noteq> NaN"
      "fiber r \<noteq> NaN" "sugar r \<noteq> NaN" "sodium r \<noteq> NaN"
      using number_or_number [OF f(1)] number_or_number [OF f(3)] number_or_number [OF f(5)]
        number_or_number [OF f(7)] number_or_number [OF f(9)] number_or_number [OF f(11)]
        number_or_number [OF f(13)] f
      by simp_all
    ultimately show ?thesis by (simp add: eq Let_def)
  qed
next
  assume a: "parseAnalysisResponse_try E language parsed = Some r \<and>
    ToNumber E (read_property parsed (ascii ''confidence'')) = Some n"
  from try_fields [of E language parsed r] a obtain co where
    "number_or E parsed (ascii ''confidence'') (Fin 75) = Some co"
    "confidence r = Math_min (Fin 100) (Math_max (Fin 1) co)"
    by blast
  with a show "confidence r =
        (if n = NaN \<or> n = Fin 0 then Fin 75 else Math_min (Fin 100) (Math_max (Fin 1) n))"
    by (auto simp: number_or_def truthy_num_def)
next
  assume a: "extract_and_parse E content = Some example_object"
  have t: "\<exists>r. parseAnalysisResponse_try E language example_object = Some r \<and>
               calories r = Fin 450 \<and> confidence r = Fin 100"
    by (simp add: example_object_def parseAnalysisResponse_try_def number_or_def
        number_or_undefined_def truthy_num_def ascii_def is_digit_def decimal_value_def)
  with a show "calories (parseAnalysisResponse E random content language) = Fin 450"
    by (auto simp: parseAnalysisResponse_def)
  from t a show "confidence (parseAnalysisResponse E random content language) = Fin 100"
    by (auto simp: parseAnalysisResponse_def)
qed

theorem normalizer_fields_witness:
  "extract_and_parse (parsing_to example_object) photo = Some example_object \<and>
   calories (parseAnalysisResponse (parsing_to example_object) some_random photo english) =
     Fin 450 \<and>
   confidence (parseAnalysisResponse (parsing_to example_object) some_random photo english) =
     Fin 100 \<and>
   ToNumber (parsing_to example_object) (read_property zero_confidence (ascii ''confidence'')) = Some (Fin 0) \<and>
   map_option confidence
     (parseAnalysisResponse_try (parsing_to example_object) english zero_confidence) =
     Some (Fin 75)"
proof -
  have h: "extract_and_parse (parsing_to example_object) photo = Some example_object"
    by (simp add: parsing_to_def)
  have z: "ToNumber (parsing_to example_object) (read_property zero_confidence (ascii ''confidence'')) =
           Some (Fin 0)"
    by (simp add: zero_confidence_def)
  obtain r where r: "parseAnalysisResponse_try (parsing_to example_object) english zero_confidence = Some r"
    by (simp add: zero_confidence_def parseAnalysisResponse_try_def number_or_def
        number_or_undefined_def truthy_num_def ascii_def)
  from normalizer_fields [of "parsing_to example_object" some_random photo english
      zero_confidence r "Fin 0"] h z r
  have "calories (parseAnalysisResponse (parsing_to example_object) some_random photo english) =
          Fin 450 \<and>
        confidence (parseAnalysisResponse (parsing_to example_object) some_random photo english) =
          Fin 100 \<and>
        confidence r = Fin 75"
    by simp
  with h z r show ?thesis by simp
qed

lemma analysis_failed_error:
  "(\<exists>msg. analysis_failed E random language updateText e = Inl msg) \<longleftrightarrow>
     error_code e = Some (ascii ''rate_limit_exceeded'') \<or>
     error_code e = Some (ascii ''insufficient_quota'') \<or>
     (\<exists>m. error_message e = Some m \<and> string_includes m (ascii ''timeout''))"
  by (auto simp: analysis_failed_def split: option.splits)

text \<open>
  Claim C2, as stated, fails on "always returns a result": when the request ends with the
  error code \<open>rate_limit_exceeded\<close>, \<open>_performMealAnalysis\<close> throws, and the caller of
  \<open>analyzeMealImage\<close> receives that error.
\<close>

theorem rate_limit_reaches_caller:
  "openai_configured sample_env \<and>
   performMealAnalysis sample_env some_random english None (Threw rate_limited) =
     Inl (ascii ''AI service is busy. Please try again in a moment.'') \<and>
   fst (analyzeMealImage photo english None 0 initial_state) = Awaits 0 \<and>
   map_option fst
     (analyzeMealImage_settled sample_env 0 (Threw rate_limited) some_random 1
        (snd (analyzeMealImage photo english None 0 initial_state))) =
     Some (Inl (ascii ''AI service is busy. Please try again in a moment.''))"
  by (simp add: performMealAnalysis_def analysis_failed_def sample_env_def rate_limited_def
      analyzeMealImage_def analyzeMealImage_settled_def initial_state_def cache_hit_def
      getCachedResponse_def Let_def)

text \<open>
  Claim C2, amended. A response that cannot be parsed is answered with the fallback
  analysis, and every response is answered with a result: the normalized response when
  the client is configured and the content is not empty, the fallback analysis otherwise.
  Without a configured client every call is answered with the fallback analysis. With
  one, a request that throws ends in an error with a fixed message when the code of the
  error is \<open>rate_limit_exceeded\<close> or \<open>insufficient_quota\<close> or its message includes
  \<open>timeout\<close>, and is answered with the fallback analysis otherwise; so the analysis ends
  in an error in exactly those three cases. A backend call of the client settles as the
  last delivery of the transport did: its error reaches the caller as it is.
\<close>

theorem analysis_degrades_or_reports:
  "(openai_configured E \<and> content \<noteq> [] \<and>
    extract_and_parse E content \<in> {None, Some JNull} \<longrightarrow>
      performMealAnalysis E random language updateText (Content (Some content)) =
        Inr (generateEnhancedFallbackAnalysis E random language None)) \<and>
   performMealAnalysis E random language updateText (Content response) =
     Inr (if openai_configured E \<and> nonempty response
          then parseAnalysisResponse E random (or_empty response) language
          else generateEnhancedFallbackAnalysis E random language updateText) \<and>
   (\<not> openai_configured E \<longrightarrow>
      performMealAnalysis E random language updateText completion =
        Inr (generateEnhancedFallbackAnalysis E random language updateText)) \<and>
   (openai_configured E \<longrightarrow>
      performMealAnalysis E random language updateText (Threw e) =
        (if error_code e = Some (ascii ''rate_limit_exceeded'')
           then Inl (ascii ''AI service is busy. Please try again in a moment.'')
         else if error_code e = Some (ascii ''insufficient_quota'')
           then Inl (ascii ''AI analysis quota exceeded. Please try again later.'')
         else if (\<exists>m. error_message e = Some m \<and> string_includes m (ascii ''timeout''))
           then Inl (ascii ''Analysis is taking too long. Please try again.'')
         else Inr (generateEnhancedFallbackAnalysis E random language updateText))) \<and>
   ((\<exists>msg. performMealAnalysis E random language updateText completion = Inl msg) \<longleftrightarrow>
      openai_configured E \<and>
      (\<exists>e. completion = Threw e \<and>
         (error_code e = Some (ascii ''rate_limit_exceeded'') \<or>
          error_code e = Some (ascii ''insufficient_quota'') \<or>
          (\<exists>m. error_message e = Some m \<and> string_includes m (ascii ''timeout''))))) \<and>
   outcome (fst (backend_call D transport c)) =
     transport (attempts (fst (backend_call D transport c)))"
proof (intro conjI impI)
  assume "openai_configured E \<and> content \<noteq> [] \<and>
    extract_and_parse E content \<in> {None, Some JNull}"
  then show "performMealAnalysis E random language updateText (Content (Some content)) =
        Inr (generateEnhancedFallbackAnalysis E random language None)"
    using parse_failed_fallback [of E content random language]
    by (simp add: performMealAnalysis_def nonempty_def or_empty_def)
next
  show "performMealAnalysis E random language updateText (Content response) =
     Inr (if openai_configured E \<and> nonempty response
          then parseAnalysisResponse E random (or_empty response) language
          else generateEnhancedFallbackAnalysis E random language updateText)"
    by (simp add: performMealAnalysis_def analysis_failed_def no_content_is_no_timeout)
next
  assume "\<not> openai_configured E"
  then show "performMealAnalysis E random language updateText completion =
        Inr (generateEnhancedFallbackAnalysis E random language updateText)"
    by (simp add: performMealAnalysis_def)
next
  assume "openai_configured E"
  then show "performMealAnalysis E random language updateText (Threw e) =
        (if error_code e = Some (ascii ''rate_limit_exceeded'')
           then Inl (ascii ''AI service is busy. Please try again in a moment.'')
         else if error_code e = Some (ascii ''insufficient_quota'')
           then Inl (ascii ''AI analysis quota exceeded. Please try again later.'')
         else if (\<exists>m. error_message e = Some m \<and> string_includes m (ascii ''timeout''))
           then Inl (ascii ''Analysis is taking too long. Please try again.'')
         else Inr (generateEnhancedFallbackAnalysis E random language updateText))"
    by (cases "error_message e") (simp_all add: performMealAnalysis_def analysis_failed_def)
next
  show "(\<exists>msg. performMealAnalysis E random language updateText completion = Inl msg) \<longleftrightarrow>
      openai_configured E \<and>
      (\<exists>e. completion = Threw e \<and>
         (error_code e = Some (ascii ''rate_limit_exceeded'') \<or>
          error_code e = Some (ascii ''insufficient_quota'') \<or>
          (\<exists>m. error_message e = Some m \<and> string_includes m (ascii ''timeout''))))"
  proof (cases completion)
    case (Threw e)
    then show ?thesis
      using analysis_failed_error [of E random language updateText e]
      by (simp add: performMealAnalysis_def)
  next
    case (Content response)
    then show ?thesis
      using content_gives_result [of E random language updateText response] by auto
  qed
next
  let ?f = "\<lambda>k. api_request D (transport k) :: client_state \<Rightarrow> _"
  let ?run = "fst (retryRequest ?f 1 c)"
  from retryRequest_trace [of ?f 1 c] retryRequest_attempts_pos [of ?f 1 c]
  have "outcome ?run = fst (?f (attempts ?run) (state_before ?f 1 c (attempts ?run - 1)))"
    by (metis add_diff_cancel_left' fst_conv)
  then show "outcome (fst (backend_call D transport c)) =
     transport (attempts (fst (backend_call D transport c)))"
    by (simp add: backend_call_def api_request_outcome)
qed

theorem analysis_degrades_or_reports_witness:
  "openai_configured sample_env \<and> photo \<noteq> [] \<and> extract_and_parse sample_env photo = None \<and>
   performMealAnalysis sample_env some_random english None (Content (Some photo)) =
     Inr (generateEnhancedFallbackAnalysis sample_env some_random english None) \<and>
   performMealAnalysis sample_env some_random english (Some photo) (Threw connection_reset) =
     Inr (generateEnhancedFallbackAnalysis sample_env some_random english (Some photo)) \<and>
   performMealAnalysis sample_env some_random english (Some photo) (Threw rate_limited) =
     Inl (ascii ''AI service is busy. Please try again in a moment.'') \<and>
   \<not> openai_configured unconfigured_env \<and>
   performMealAnalysis unconfigured_env some_random english (Some photo) (Threw rate_limited) =
     Inr (generateEnhancedFallbackAnalysis unconfigured_env some_random english (Some photo)) \<and>
   outcome (fst (backend_call phone rejecting signed_in)) = Inl unauthorized"
proof -
  have h: "openai_configured sample_env \<and> photo \<noteq> [] \<and>
           extract_and_parse sample_env photo = None"
    "\<not> openai_configured unconfigured_env"
    by (simp_all add: sample_env_def unconfigured_env_def photo_def ascii_def)
  from analysis_degrades_or_reports [of sample_env photo some_random english None
      "Some photo" "Content (Some photo)" connection_reset phone rejecting signed_in] h
  have a: "performMealAnalysis sample_env some_random english None (Content (Some photo)) =
          Inr (generateEnhancedFallbackAnalysis sample_env some_random english None) \<and>
        outcome (fst (backend_call phone rejecting signed_in)) =
          rejecting (attempts (fst (backend_call phone rejecting signed_in)))"
    by blast
  from analysis_degrades_or_reports [of sample_env photo some_random english "Some photo"
      "Some photo" "Content (Some photo)" connection_reset phone rejecting signed_in] h
  have b: "performMealAnalysis sample_env some_random english (Some photo)
             (Threw connection_reset) =
           Inr (generateEnhancedFallbackAnalysis sample_env some_random english (Some photo))"
    by (simp add: connection_reset_def ascii_def)
  from analysis_degrades_or_reports [of sample_env photo some_random english "Some photo"
      "Some photo" "Content (Some photo)" rate_limited phone rejecting signed_in] h
  have c: "performMealAnalysis sample_env some_random english (Some photo)
             (Threw rate_limited) =
           Inl (ascii ''AI service is busy. Please try again in a moment.'')"
    by (simp add: rate_limited_def)
  from analysis_degrades_or_reports [of unconfigured_env photo some_random english "Some photo"
      "Some photo" "Threw rate_limited" rate_limited phone rejecting signed_in] h
  have d: "performMealAnalysis unconfigured_env some_random english (Some photo)
             (Threw rate_limited) =
           Inr (generateEnhancedFallbackAnalysis unconfigured_env some_random english (Some photo))"
    by blast
  from h a b c d show ?thesis by (simp add: rejecting_def)
qed

section \<open>Properties of the cache and the queue in \<open>analyzeMealImage\<close> and \<open>analyzeMeal\<close>\<close>

lemma cache_hit_live:
  "map_of c key = Some (d, ts) \<Longrightarrow> now - ts < CACHE_DURATION \<Longrightarrow> truthy_data d \<Longrightarrow>
   cache_hit key now c = Some d"
  by (simp add: cache_hit_def getCachedResponse_def)

lemma cache_hit_expired:
  "map_of c key = Some (d, ts) \<Longrightarrow> now - ts \<ge> CACHE_DURATION \<Longrightarrow> cache_hit key now c = None"
  by (simp add: cache_hit_def getCachedResponse_def)

lemma analyzeMealImage_hit:
  "cache_hit (analysis_key imageBase64 language updateText) now (requestCache s) = Some d \<Longrightarrow>
   analyzeMealImage imageBase64 language updateText now s = (Cached d, s)"
  by (simp add: analyzeMealImage_def Let_def)

lemma analyzeMealImage_join:
  "cache_hit (analysis_key imageBase64 language updateText) now (requestCache s) = None \<Longrightarrow>
   requestQueue s (analysis_key imageBase64 language updateText) = Some p \<Longrightarrow>
   analyzeMealImage imageBase64 language updateText now s = (Awaits p, s)"
  by (simp add: analyzeMealImage_def Let_def)

lemma analyzeMealImage_start:
  "cache_hit (analysis_key imageBase64 language updateText) now (requestCache s) = None \<Longrightarrow>
   requestQueue s (analysis_key imageBase64 language updateText) = None \<Longrightarrow>
   analyzeMealImage imageBase64 language updateText now s =
     (Awaits (analyses_started s),
      s\<lparr>analyses_started := Suc (analyses_started s),
        requestQueue := (requestQueue s)
          (analysis_key imageBase64 language updateText \<mapsto> analyses_started s),
        awaited := (awaited s)(analyses_started s \<mapsto>
          \<lparr>pending_key = analysis_key imageBase64 language updateText,
           pending_language = language, pending_updateText = updateText\<rparr>)\<rparr>)"
  by (simp add: analyzeMealImage_def Let_def)

text \<open>
  Claim C7, as stated, fails on "instead triggers a fresh computation". In the run below
  an entry is stored at time 1 and is expired at time 600003, when the key is still
  registered in \<open>requestQueue\<close> with the promise of a request that has already ended
  in an error: the call at that time is answered with that promise, and
  \<open>_performMealAnalysis\<close> is not invoked.
\<close>

theorem expired_entry_joins_settled_request:
  "map_of (requestCache (run sample_env expired_and_in_flight initial_state)) photo_key =
     Some (AnalysisData (generateEnhancedFallbackAnalysis sample_env some_random english None), 1) \<and>
   600003 - 1 \<ge> CACHE_DURATION \<and>
   requestQueue (run sample_env expired_and_in_flight initial_state) photo_key = Some 1 \<and>
   awaited (run sample_env expired_and_in_flight initial_state) 1 = None \<and>
   analyses_started (run sample_env expired_and_in_flight initial_state) = 2 \<and>
   analyzeMealImage photo english None 600003
       (run sample_env expired_and_in_flight initial_state) =
     (Awaits 1, run sample_env expired_and_in_flight initial_state)"
  by (simp add: run_def expired_and_in_flight_def photo_key_def initial_state_def
      analyzeMealImage_def analyzeMealImage_settled_def analyzeMealImage_timer_def
      cache_hit_def getCachedResponse_def setCachedResponse_def CACHE_DURATION_def
      MAX_CACHE_SIZE_def performMealAnalysis_def analysis_failed_def parseAnalysisResponse_def
      sample_env_def rate_limited_def photo_def nonempty_def or_empty_def Let_def ascii_def)


text \<open>
  Claim C7, amended. A read at an elapsed time below \<open>CACHE_DURATION\<close> returns the stored
  value: \<open>getCachedResponse\<close> for every entry, and \<open>analyzeMealImage\<close>, for an entry that
  holds an analysis, without any change of state, so without an underlying call. At an
  elapsed time of \<open>CACHE_DURATION\<close> or more \<open>getCachedResponse\<close> returns \<open>null\<close>, and
  \<open>analyzeMealImage\<close> starts a new run of \<open>_performMealAnalysis\<close> unless the key is
  registered in \<open>requestQueue\<close>, in which case the caller is answered with the registered
  promise and nothing is started.
\<close>

theorem cache_entry_lifetime:
  "(map_of (requestCache s) key = Some (d, ts) \<and> now - ts < CACHE_DURATION \<longrightarrow>
      getCachedResponse key now (requestCache s) = Some d) \<and>
   (map_of (requestCache s) (analysis_key imageBase64 language updateText) =
      Some (AnalysisData r, ts) \<and> now - ts < CACHE_DURATION \<longrightarrow>
      analyzeMealImage imageBase64 language updateText now s = (Cached (AnalysisData r), s)) \<and>
   (map_of (requestCache s) key = Some (d, ts) \<and> now - ts \<ge> CACHE_DURATION \<longrightarrow>
      getCachedResponse key now (requestCache s) = None) \<and>
   (map_of (requestCache s) (analysis_key imageBase64 language updateText) = Some (d, ts) \<and>
    now - ts \<ge> CACHE_DURATION \<and>
    requestQueue s (analysis_key imageBase64 language updateText) = None \<longrightarrow>
      fst (analyzeMealImage imageBase64 language updateText now s) =
        Awaits (analyses_started s) \<and>
      analyses_started (snd (analyzeMealImage imageBase64 language updateText now s)) =
        Suc (analyses_started s) \<and>
      requestCache (snd (analyzeMealImage imageBase64 language updateText now s)) =
        requestCache s) \<and>
   (map_of (requestCache s) (analysis_key imageBase64 language updateText) = Some (d, ts) \<and>
    now - ts \<ge> CACHE_DURATION \<and>
    requestQueue s (analysis_key imageBase64 language updateText) = Some p \<longrightarrow>
      analyzeMealImage imageBase64 language updateText now s = (Awaits p, s))"
proof (intro conjI impI)
  assume "map_of (requestCache s) key = Some (d, ts) \<and> now - ts < CACHE_DURATION"
  then show "getCachedResponse key now (requestCache s) = Some d"
    by (simp add: getCachedResponse_def)
next
  assume "map_of (requestCache s) (analysis_key imageBase64 language updateText) =
      Some (AnalysisData r, ts) \<and> now - ts < CACHE_DURATION"
  then have "cache_hit (analysis_key imageBase64 language updateText) now (requestCache s) =
      Some (AnalysisData r)"
    using cache_hit_live [of "requestCache s" _ "AnalysisData r" ts now] by simp
  then show "analyzeMealImage imageBase64 language updateText now s =
      (Cached (AnalysisData r), s)"
    by (rule analyzeMealImage_hit)
next
  assume "map_of (requestCache s) key = Some (d, ts) \<and> now - ts \<ge> CACHE_DURATION"
  then show "getCachedResponse key now (requestCache s) = None"
    by (simp add: getCachedResponse_def)
next
  assume a: "map_of (requestCache s) (analysis_key imageBase64 language updateText) =
      Some (d, ts) \<and> now - ts \<ge> CACHE_DURATION \<and>
    requestQueue s (analysis_key imageBase64 language updateText) = None"
  then have miss: "cache_hit (analysis_key imageBase64 language updateText) now
      (requestCache s) = None"
    using cache_hit_expired [of "requestCache s" _ d ts now] by simp
  from a show "fst (analyzeMealImage imageBase64 language updateText now s) =
      Awaits (analyses_started s)"
    by (simp add: analyzeMealImage_start [OF miss])
  from a show "analyses_started (snd (analyzeMealImage imageBase64 language updateText now s)) =
      Suc (analyses_started s)"
    by (simp add: analyzeMealImage_start [OF miss])
  from a show "requestCache (snd (analyzeMealImage imageBase64 language updateText now s)) =
      requestCache s"
    by (simp add: analyzeMealImage_start [OF miss])
next
  assume a: "map_of (requestCache s) (analysis_key imageBase64 language updateText) =
      Some (d, ts) \<and> now - ts \<ge> CACHE_DURATION \<and>
    requestQueue s (analysis_key imageBase64 language updateText) = Some p"
  then have miss: "cache_hit (analysis_key imageBase64 language updateText) now
      (requestCache s) = None"
    using cache_hit_expired [of "requestCache s" _ d ts now] by simp
  from a show "analyzeMealImage imageBase64 language updateText now s = (Awaits p, s)"
    by (simp add: analyzeMealImage_join [OF miss])
qed


theorem cache_entry_lifetime_witness:
  "map_of (requestCache (run sample_env stored_once initial_state)) photo_key =
     Some (AnalysisData (generateEnhancedFallbackAnalysis sample_env some_random english None), 1) \<and>
   requestQueue (run sample_env stored_once initial_state) photo_key = None \<and>
   5 - 1 < CACHE_DURATION \<and> 600001 - 1 \<ge> CACHE_DURATION \<and>
   getCachedResponse photo_key 5 (requestCache (run sample_env stored_once initial_state)) =
     Some (AnalysisData (generateEnhancedFallbackAnalysis sample_env some_random english None)) \<and>
   analyzeMealImage photo english None 5 (run sample_env stored_once initial_state) =
     (Cached (AnalysisData (generateEnhancedFallbackAnalysis sample_env some_random english None)),
      run sample_env stored_once initial_state) \<and>
   getCachedResponse photo_key 600001 (requestCache (run sample_env stored_once initial_state)) =
     None \<and>
   fst (analyzeMealImage photo english None 600001 (run sample_env stored_once initial_state)) =
     Awaits 1 \<and>
   analyses_started
     (snd (analyzeMealImage photo english None 600001
        (run sample_env stored_once initial_state))) = 2 \<and>
   requestQueue
     (snd (analyzeMealImage photo english None 600001
        (run sample_env stored_once initial_state))) photo_key = Some 1 \<and>
   analyzeMealImage photo english None 600002
     (snd (analyzeMealImage photo english None 600001
        (run sample_env stored_once initial_state))) =
     (Awaits 1,
      snd (analyzeMealImage photo english None 600001
        (run sample_env stored_once initial_state)))"
proof -
  let ?s = "run sample_env stored_once initial_state"
  let ?r = "generateEnhancedFallbackAnalysis sample_env some_random english None"
  let ?s' = "snd (analyzeMealImage photo english None 600001 ?s)"
  have c: "map_of (requestCache ?s) photo_key = Some (AnalysisData ?r, 1)"
    and q: "requestQueue ?s photo_key = None"
    and n: "analyses_started ?s = 1"
    by (simp_all add: run_def stored_once_def photo_key_def initial_state_def
        analyzeMealImage_def analyzeMealImage_settled_def analyzeMealImage_timer_def
        cache_hit_def getCachedResponse_def setCachedResponse_def CACHE_DURATION_def
        MAX_CACHE_SIZE_def performMealAnalysis_def parseAnalysisResponse_def
        sample_env_def photo_def nonempty_def or_empty_def Let_def ascii_def)
  have t: "(5::int) - 1 < CACHE_DURATION" "(600001::int) - 1 \<ge> CACHE_DURATION"
    "(600002::int) - 1 \<ge> CACHE_DURATION"
    by (simp_all add: CACHE_DURATION_def)
  from cache_entry_lifetime [of ?s photo_key "AnalysisData ?r" 1 5 photo english None ?r]
    c q t(1)
  have live: "getCachedResponse photo_key 5 (requestCache ?s) = Some (AnalysisData ?r)"
    "analyzeMealImage photo english None 5 ?s = (Cached (AnalysisData ?r), ?s)"
    by (simp_all add: photo_key_def)
  from cache_entry_lifetime [of ?s photo_key "AnalysisData ?r" 1 600001 photo english None ?r]
    c q t(2)
  have dead: "getCachedResponse photo_key 600001 (requestCache ?s) = None"
    "fst (analyzeMealImage photo english None 600001 ?s) = Awaits (analyses_started ?s)"
    "analyses_started ?s' = Suc (analyses_started ?s)"
    "requestCache ?s' = requestCache ?s"
    by (simp_all add: photo_key_def)
  have q': "requestQueue ?s' photo_key = Some 1"
    using c q n t(2)
    by (simp add: analyzeMealImage_def cache_hit_def getCachedResponse_def photo_key_def Let_def)
  from cache_entry_lifetime [of ?s' photo_key "AnalysisData ?r" 1 600002 photo english None ?r 1]
    c q' t(3) dead(4)
  have join: "analyzeMealImage photo english None 600002 ?s' = (Awaits 1, ?s')"
    by (simp add: photo_key_def)
  from c q t live dead n q' join show ?thesis by simp
qed

lemma analyzeMeal_join:
  "nutrition_requestQueue c (analyzeMeal_key imageBase64 updateText) = Some p \<Longrightarrow>
   analyzeMeal imageBase64 updateText c = (QueuedPromise p, c)"
  by (simp add: analyzeMeal_def Let_def)

lemma analyzeMeal_start:
  "nutrition_requestQueue c (analyzeMeal_key imageBase64 updateText) = None \<Longrightarrow>
   analyzeMeal imageBase64 updateText c =
     (ResponseData (underlying_requests c),
      c\<lparr>underlying_requests := Suc (underlying_requests c),
        nutrition_requestQueue := (nutrition_requestQueue c)
          (analyzeMeal_key imageBase64 updateText \<mapsto> underlying_requests c),
        nutrition_awaited := (nutrition_awaited c)
          (underlying_requests c \<mapsto> analyzeMeal_key imageBase64 updateText)\<rparr>)"
  by (simp add: analyzeMeal_def Let_def)

text \<open>
  Claim C1, as stated, fails on the server. In the run below a first call registers
  promise 0, \<open>clearCaches\<close> empties the queue while that request is pending, a second
  call with the same key starts a second request and registers promise 1, and the first
  request then ends and its result is cached. Now the key is registered with promise 1,
  which is still pending, and a third call with the same key is answered with the cached
  result of the first request, not with promise 1; and two calls with one key, the
  second issued while the first was pending, have started two requests.
\<close>

theorem cached_value_precedes_pending_request:
  "requestQueue (run sample_env cleared_while_pending initial_state) photo_key = Some 1 \<and>
   awaited (run sample_env cleared_while_pending initial_state) 1 \<noteq> None \<and>
   analyses_started (run sample_env cleared_while_pending initial_state) = 2 \<and>
   analyzeMealImage photo english None 3 (run sample_env cleared_while_pending initial_state) =
     (Cached (AnalysisData (generateEnhancedFallbackAnalysis sample_env some_random english None)),
      run sample_env cleared_while_pending initial_state) \<and>
   fst (analyzeMealImage photo english None 3
          (run sample_env cleared_while_pending initial_state)) \<noteq> Awaits 1"
  by (simp add: run_def cleared_while_pending_def photo_key_def initial_state_def
      analyzeMealImage_def analyzeMealImage_settled_def clearCaches_def
      cache_hit_def getCachedResponse_def setCachedResponse_def CACHE_DURATION_def
      MAX_CACHE_SIZE_def performMealAnalysis_def parseAnalysisResponse_def
      sample_env_def photo_def nonempty_def or_empty_def Let_def ascii_def)

text \<open>
  Claim C1, amended. While a key is registered in the queue, a call with that key invokes
  nothing and changes nothing. On the server it is answered with the live cache entry of
  the key if there is one, and with the registered promise otherwise; on the client it is
  answered with the registered promise (so with the whole response, where the call that
  made the request returns the data of the response). Two calls with one key, the second
  made in the state the first has left, start exactly one underlying computation (one run
  of \<open>_performMealAnalysis\<close>, one run of \<open>retryRequest\<close>), and both are answered from
  its promise, on the server as long as the cache still misses at the second call.
\<close>

theorem in_flight_request_shared:
  "(requestQueue s (analysis_key imageBase64 language updateText) = Some p \<longrightarrow>
      snd (analyzeMealImage imageBase64 language updateText now s) = s \<and>
      fst (analyzeMealImage imageBase64 language updateText now s) =
        (case cache_hit (analysis_key imageBase64 language updateText) now (requestCache s) of
           Some cached \<Rightarrow> Cached cached
         | None \<Rightarrow> Awaits p)) \<and>
   (analysis_key imageBase64' language' updateText' =
      analysis_key imageBase64 language updateText \<and>
    cache_hit (analysis_key imageBase64 language updateText) now (requestCache s) = None \<and>
    requestQueue s (analysis_key imageBase64 language updateText) = None \<longrightarrow>
      (let first = analyzeMealImage imageBase64 language updateText now s;
           second = analyzeMealImage imageBase64' language' updateText' now' (snd first)
       in fst first = Awaits (analyses_started s) \<and>
          analyses_started (snd first) = Suc (analyses_started s) \<and>
          snd second = snd first \<and>
          (cache_hit (analysis_key imageBase64 language updateText) now' (requestCache s) = None
             \<longrightarrow> fst second = fst first))) \<and>
   (nutrition_requestQueue c (analyzeMeal_key imageBase64 updateText) = Some q \<longrightarrow>
      analyzeMeal imageBase64 updateText c = (QueuedPromise q, c)) \<and>
   (analyzeMeal_key imageBase64' updateText' = analyzeMeal_key imageBase64 updateText \<and>
    nutrition_requestQueue c (analyzeMeal_key imageBase64 updateText) = None \<longrightarrow>
      (let first = analyzeMeal imageBase64 updateText c;
           second = analyzeMeal imageBase64' updateText' (snd first)
       in fst first = ResponseData (underlying_requests c) \<and>
          underlying_requests (snd first) = Suc (underlying_requests c) \<and>
          second = (QueuedPromise (underlying_requests c), snd first)))"
proof (intro conjI impI)
  assume q: "requestQueue s (analysis_key imageBase64 language updateText) = Some p"
  show "snd (analyzeMealImage imageBase64 language updateText now s) = s"
    using q by (simp add: analyzeMealImage_def Let_def split: option.splits)
  show "fst (analyzeMealImage imageBase64 language updateText now s) =
        (case cache_hit (analysis_key imageBase64 language updateText) now (requestCache s) of
           Some cached \<Rightarrow> Cached cached
         | None \<Rightarrow> Awaits p)"
    using q by (simp add: analyzeMealImage_def Let_def split: option.splits)
next
  assume a: "analysis_key imageBase64' language' updateText' =
      analysis_key imageBase64 language updateText \<and>
    cache_hit (analysis_key imageBase64 language updateText) now (requestCache s) = None \<and>
    requestQueue s (analysis_key imageBase64 language updateText) = None"
  let ?k = "analysis_key imageBase64 language updateText"
  let ?s1 = "s\<lparr>analyses_started := Suc (analyses_started s),
        requestQueue := (requestQueue s)(?k \<mapsto> analyses_started s),
        awaited := (awaited s)(analyses_started s \<mapsto>
          \<lparr>pending_key = ?k, pending_language = language,
           pending_updateText = updateText\<rparr>)\<rparr>"
  have first: "analyzeMealImage imageBase64 language updateText now s =
      (Awaits (analyses_started s), ?s1)"
    using a by (simp add: analyzeMealImage_start)
  have second: "analyzeMealImage imageBase64' language' updateText' now' ?s1 =
      (case cache_hit ?k now' (requestCache s) of
         Some cached \<Rightarrow> Cached cached | None \<Rightarrow> Awaits (analyses_started s), ?s1)"
    using a by (simp add: analyzeMealImage_def Let_def split: option.splits)
  show "let first = analyzeMealImage imageBase64 language updateText now s;
           second = analyzeMealImage imageBase64' language' updateText' now' (snd first)
       in fst first = Awaits (analyses_started s) \<and>
          analyses_started (snd first) = Suc (analyses_started s) \<and>
          snd second = snd first \<and>
          (cache_hit (analysis_key imageBase64 language updateText) now' (requestCache s) = None
             \<longrightarrow> fst second = fst first)"
    unfolding Let_def first snd_conv fst_conv second by simp
next
  assume "nutrition_requestQueue c (analyzeMeal_key imageBase64 updateText) = Some q"
  then show "analyzeMeal imageBase64 updateText c = (QueuedPromise q, c)"
    by (rule analyzeMeal_join)
next
  assume a: "analyzeMeal_key imageBase64' updateText' = analyzeMeal_key imageBase64 updateText \<and>
    nutrition_requestQueue c (analyzeMeal_key imageBase64 updateText) = None"
  let ?k = "analyzeMeal_key imageBase64 updateText"
  let ?c1 = "c\<lparr>underlying_requests := Suc (underlying_requests c),
        nutrition_requestQueue := (nutrition_requestQueue c)(?k \<mapsto> underlying_requests c),
        nutrition_awaited := (nutrition_awaited c)(underlying_requests c \<mapsto> ?k)\<rparr>"
  have first: "analyzeMeal imageBase64 updateText c = (ResponseData (underlying_requests c), ?c1)"
    using a by (simp add: analyzeMeal_start)
  have second: "analyzeMeal imageBase64' updateText' ?c1 =
      (QueuedPromise (underlying_requests c), ?c1)"
    using a by (simp add: analyzeMeal_def Let_def)
  show "let first = analyzeMeal imageBase64 updateText c;
           second = analyzeMeal imageBase64' updateText' (snd first)
       in fst first = ResponseData (underlying_requests c) \<and>
          underlying_requests (snd first) = Suc (underlying_requests c) \<and>
          second = (QueuedPromise (underlying_requests c), snd first)"
    unfolding Let_def first snd_conv fst_conv second by simp
qed

theorem in_flight_request_shared_witness:
  "cache_hit photo_key 0 (requestCache initial_state) = None \<and>
   requestQueue initial_state photo_key = None \<and>
   fst (analyzeMealImage photo english None 0 initial_state) = Awaits 0 \<and>
   requestQueue (snd (analyzeMealImage photo english None 0 initial_state)) photo_key = Some 0 \<and>
   analyzeMealImage photo english None 1 (snd (analyzeMealImage photo english None 0 initial_state)) =
     (Awaits 0, snd (analyzeMealImage photo english None 0 initial_state)) \<and>
   analyses_started (snd (analyzeMealImage photo english None 0 initial_state)) = 1 \<and>
   nutrition_requestQueue no_requests (analyzeMeal_key photo None) = None \<and>
   fst (analyzeMeal photo None no_requests) = ResponseData 0 \<and>
   nutrition_requestQueue (snd (analyzeMeal photo None no_requests)) (analyzeMeal_key photo None) =
     Some 0 \<and>
   analyzeMeal photo None (snd (analyzeMeal photo None no_requests)) =
     (QueuedPromise 0, snd (analyzeMeal photo None no_requests)) \<and>
   underlying_requests (snd (analyzeMeal photo None no_requests)) = 1"
proof -
  have h: "cache_hit photo_key 0 (requestCache initial_state) = None"
    "cache_hit photo_key 1 (requestCache initial_state) = None"
    "requestQueue initial_state photo_key = None"
    "nutrition_requestQueue no_requests (analyzeMeal_key photo None) = None"
    "analyses_started initial_state = 0" "underlying_requests no_requests = 0"
    by (simp_all add: initial_state_def no_requests_def cache_hit_def getCachedResponse_def)
  let ?s1 = "snd (analyzeMealImage photo english None 0 initial_state)"
  let ?c1 = "snd (analyzeMeal photo None no_requests)"
  have q1: "requestQueue ?s1 photo_key = Some 0"
    by (simp add: analyzeMealImage_def initial_state_def cache_hit_def getCachedResponse_def
        photo_key_def Let_def)
  have c1: "cache_hit photo_key 1 (requestCache ?s1) = None"
    by (simp add: analyzeMealImage_def initial_state_def cache_hit_def getCachedResponse_def
        photo_key_def Let_def)
  have n1: "nutrition_requestQueue ?c1 (analyzeMeal_key photo None) = Some 0"
    by (simp add: analyzeMeal_def no_requests_def Let_def)
  from in_flight_request_shared [of initial_state photo english None 0 0 photo english None 1
      no_requests 0] h
  have two: "fst (analyzeMealImage photo english None 0 initial_state) = Awaits 0"
    "analyses_started ?s1 = 1"
    "fst (analyzeMeal photo None no_requests) = ResponseData 0"
    "underlying_requests ?c1 = 1"
    by (simp_all add: photo_key_def Let_def)
  from in_flight_request_shared [of ?s1 photo english None 0 1 photo english None 1 ?c1 0]
    q1 c1 n1
  have join: "analyzeMealImage photo english None 1 ?s1 = (Awaits 0, ?s1)"
    "analyzeMeal photo None ?c1 = (QueuedPromise 0, ?c1)"
    by (simp_all add: photo_key_def prod_eq_iff)
  from h q1 n1 two join show ?thesis by simp
qed

end
